theory Spec2Isabelle
  imports Complex_Main
begin

section \<open>Python values shared by both model wrappers\<close>

text \<open>
  The two classes of the repository, \<open>UnetModel\<close> (models/unet_model.py) and
  \<open>PerceptualCycleGANModel\<close> (models/perceptual_cycle_gan_model.py), are embedded as
  functions over explicit state. Every Python exception the embedded code can raise is a
  value of \<open>error\<close>; a function that can raise returns \<open>error + 'a\<close> with
  \<open>Inl\<close> for the exception.
\<close>

datatype error =
    NotImplementedError string
  | UnboundLocalError string
  | AttributeError string
  | KeyError string
  | AssertionError
  | IndexError
  | ValueError
  | RuntimeError string

definition and_then :: "error + 'a \<Rightarrow> ('a \<Rightarrow> error + 'b) \<Rightarrow> error + 'b" where
  "and_then m f = (case m of Inl e \<Rightarrow> Inl e | Inr x \<Rightarrow> f x)"

text \<open>Reading an attribute of \<open>self\<close> that was never assigned raises AttributeError.\<close>

definition attr :: "string \<Rightarrow> 'a option \<Rightarrow> error + 'a" where
  "attr name v = (case v of None \<Rightarrow> Inl (AttributeError name) | Some x \<Rightarrow> Inr x)"

text \<open>
  An image tensor is a rectangular nested list in the layout the code uses, batch x channel
  x height x width. The tensors of \<open>PerceptualCycleGANModel\<close> hold real numbers: what is
  proved about that class is which operations it applies to which operands and in which
  order, and rounding is not modelled there. The tensors of \<open>UnetModel\<close> hold
  single-precision numbers (\<open>float32\<close> below), because the mask rescaling is arithmetic
  on the elements. Mapping over the elements, indexing and \<open>unsqueeze\<close> are the same for
  both.
\<close>

type_synonym sample = "real list list list"
type_synonym batch = "sample list"

definition sample_map :: "('a \<Rightarrow> 'b) \<Rightarrow> 'a list list list \<Rightarrow> 'b list list list" where
  "sample_map f x = map (map (map f)) x"

definition batch_map ::
  "('a \<Rightarrow> 'b) \<Rightarrow> 'a list list list list \<Rightarrow> 'b list list list list" where
  "batch_map f t = map (sample_map f) t"

text \<open>\<open>t[idx]\<close> for a non-negative index: IndexError past the end of the batch.\<close>

definition index :: "'a list \<Rightarrow> int \<Rightarrow> error + 'a" where
  "index t i = (if 0 \<le> i \<and> i < int (length t) then Inr (t ! nat i) else Inl IndexError)"

text \<open>\<open>torch.unsqueeze(x, 0)\<close>: a batch of one sample.\<close>

definition unsqueeze0 :: "'a \<Rightarrow> 'a list" where
  "unsqueeze0 x = [x]"

text \<open>
  The command-line options both classes read (an argparse namespace). Python ints are
  \<open>int\<close>, floats are \<open>real\<close>.
\<close>

record opt =
  unet_type :: string
  input_nc :: int
  label_num :: int
  load_size :: int
  crop_size :: int
  batch_size :: int
  lambda_A :: real
  lambda_B :: real
  lambda_identity :: real

section \<open>UnetModel\<close>

subsection \<open>get_network_by_name\<close>

text \<open>
  The five network classes of \<open>Unet_networks.models\<close> are external; a constructed network
  is recorded by the class chosen and the arguments of the constructor call. \<open>device\<close>
  is \<open>None\<close> until \<open>model.to(gpu)\<close> moves it.
\<close>

datatype architecture = UNet | UNet_2Plus | UNet_3Plus | UNet_3Plus_DeepSup | UNet_3Plus_DeepSup_CGM

record module =
  arch :: architecture
  in_channels :: int
  n_classes :: int
  is_deconv :: bool
  is_batchnorm :: bool
  device :: "int option"

datatype network = DataParallel module "int list"

definition construct_net :: "architecture \<Rightarrow> opt \<Rightarrow> module" where
  "construct_net a opt =
     \<lparr>arch = a, in_channels = input_nc opt, n_classes = label_num opt,
      is_deconv = True, is_batchnorm = True, device = None\<rparr>"

text \<open>
  \<open>get_network_by_name(self, opt)\<close>. \<open>self_gpu_ids\<close> is \<open>self.gpu_ids\<close> and
  \<open>cuda_is_available\<close> the answer of \<open>torch.cuda.is_available()\<close>. The result has three
  parts: what the call returns or raises, the options object after the call (the
  function assigns \<open>load_size\<close> and \<open>crop_size\<close>), and the networks constructed during
  the call, in order. The local \<open>net\<close> is assigned only inside the GPU branch, so the
  final \<open>return net\<close> raises UnboundLocalError when \<open>self.gpu_ids\<close> is empty.
\<close>

definition get_network_by_name ::
  "int list \<Rightarrow> bool \<Rightarrow> opt \<Rightarrow> (error + network) \<times> opt \<times> module list" where
  "get_network_by_name self_gpu_ids cuda_is_available opt =
     (let chosen =
        (if unet_type opt = ''unet'' then Inr (construct_net UNet opt)
         else if unet_type opt = ''unet_2plus'' then Inr (construct_net UNet_2Plus opt)
         else if unet_type opt = ''unet_3plus'' then Inr (construct_net UNet_3Plus opt)
         else if unet_type opt = ''unet_3plus_deepsup'' then Inr (construct_net UNet_3Plus_DeepSup opt)
         else if unet_type opt = ''unet_3plus_deepsup_cgm'' then
           Inr (construct_net UNet_3Plus_DeepSup_CGM opt)
         else Inl (NotImplementedError
                (''Unet model name ['' @ unet_type opt @ ''] is not recognized'')))
      in case chosen of
           Inl e \<Rightarrow> (Inl e, opt, [])
         | Inr model \<Rightarrow>
            (let opt' = opt\<lparr>load_size := 512, crop_size := 320\<rparr> in
             case self_gpu_ids of
               g # _ \<Rightarrow>
                 if cuda_is_available
                 then (Inr (DataParallel (model\<lparr>device := Some g\<rparr>) self_gpu_ids), opt', [model])
                 else (Inl AssertionError, opt', [model])
             | [] \<Rightarrow> (Inl (UnboundLocalError ''net''), opt', [model])))"

definition recognized :: "string list" where
  "recognized =
     [''unet'', ''unet_2plus'', ''unet_3plus'', ''unet_3plus_deepsup'', ''unet_3plus_deepsup_cgm'']"

text \<open>The three parts of the result of \<open>get_network_by_name\<close>.\<close>

definition outcome :: "(error + network) \<times> opt \<times> module list \<Rightarrow> error + network" where
  "outcome r = fst r"

definition constructed :: "(error + network) \<times> opt \<times> module list \<Rightarrow> module list" where
  "constructed r = snd (snd r)"

subsection \<open>Single-precision tensor elements\<close>

text \<open>
  The image and mask tensors of a segmentation sample come from the data loader in torch's
  default floating-point type, IEEE 754 binary32. A binary32 value is a finite number, an
  infinity (\<open>Infinity True\<close> is the positive one) or NaN; the finite ones are the numbers
  \<open>n * 2 ^ k\<close> with \<open>\<bar>n\<bar> < 2 ^ 24\<close> and \<open>- 149 \<le> k \<le> 104\<close>. The sign of zero is not
  modelled.
\<close>

datatype float32 = Finite real | Infinity bool | NaN

type_synonym sample32 = "float32 list list list"
type_synonym batch32 = "sample32 list"

text \<open>
  The binary exponent at which a real number is rounded: the largest \<open>e\<close> of
  \<open>- 126 .. 127\<close> with \<open>2 ^ e \<le> \<bar>r\<bar>\<close>, and \<open>- 126\<close>, the exponent of the subnormal numbers,
  when there is none.
\<close>

definition exponent :: "real \<Rightarrow> int" where
  "exponent r =
     (case find (\<lambda>e. 2 powi e \<le> \<bar>r\<bar>) (rev [- 126..127]) of Some e \<Rightarrow> e | None \<Rightarrow> - 126)"

text \<open>The nearest integer, the even one of the two when they are equally near.\<close>

definition round_even :: "real \<Rightarrow> int" where
  "round_even q =
     (let n = \<lfloor>q\<rfloor>; d = q - of_int n in
      if d < 1 / 2 then n else if 1 / 2 < d then n + 1 else if even n then n else n + 1)"

text \<open>
  The binary32 result of an arithmetic operation whose exact result is \<open>r\<close> (rounding to
  nearest, ties to even, the mode torch computes in): \<open>r\<close> is rounded to a multiple of
  the spacing \<open>2 ^ (e - 23)\<close> of the binary32 numbers at its exponent \<open>e\<close>, and the result is
  an infinity when the rounded magnitude reaches \<open>2 ^ 128\<close>. \<open>max_float32\<close> is the largest
  finite binary32 number.
\<close>

definition round32 :: "real \<Rightarrow> float32" where
  "round32 r =
     (let ulp = 2 powi (exponent r - 23);
          v = of_int (round_even (r / ulp)) * ulp in
      if 2 powi 128 \<le> \<bar>v\<bar> then Infinity (0 < r) else Finite v)"

definition max_float32 :: real where
  "max_float32 = 2 powi 128 - 2 powi 104"

text \<open>
  The four operations the class applies to a tensor and a Python int, \<open>x + c\<close>,
  \<open>x - c\<close>, \<open>x * c\<close> and \<open>x / c\<close>, on one element. The library converts the int to the
  type of the tensor, which is exact for the literals \<open>1\<close> and \<open>2\<close> of the code, and rounds
  the result of each operation to binary32.
\<close>

definition add32 :: "float32 \<Rightarrow> int \<Rightarrow> float32" where
  "add32 x c =
     (case x of Finite v \<Rightarrow> round32 (v + of_int c) | Infinity s \<Rightarrow> Infinity s | NaN \<Rightarrow> NaN)"

definition sub32 :: "float32 \<Rightarrow> int \<Rightarrow> float32" where
  "sub32 x c =
     (case x of Finite v \<Rightarrow> round32 (v - of_int c) | Infinity s \<Rightarrow> Infinity s | NaN \<Rightarrow> NaN)"

definition mul32 :: "float32 \<Rightarrow> int \<Rightarrow> float32" where
  "mul32 x c =
     (case x of
        Finite v \<Rightarrow> round32 (v * of_int c)
      | Infinity s \<Rightarrow> if c = 0 then NaN else Infinity (s = (0 < c))
      | NaN \<Rightarrow> NaN)"

definition div32 :: "float32 \<Rightarrow> int \<Rightarrow> float32" where
  "div32 x c =
     (case x of
        Finite v \<Rightarrow>
          if c = 0 then (if v = 0 then NaN else Infinity (0 < v)) else round32 (v / of_int c)
      | Infinity s \<Rightarrow> Infinity (s = (0 \<le> c))
      | NaN \<Rightarrow> NaN)"

subsection \<open>set_input, forward, compute_visuals\<close>

text \<open>
  The attributes of a \<open>UnetModel\<close> object that these methods read and write. An attribute
  that has not been assigned yet is \<open>None\<close>. \<open>net_output\<close> is \<open>self.output\<close>.
\<close>

datatype item = Tensor batch32 | Strings "string list"

record unet =
  img :: "batch32 option"
  seg :: "batch32 option"
  image_paths :: "item option"
  net_output :: "batch32 option"
  input_image :: "batch32 option"
  true_seg :: "batch32 option"
  pred_seg :: "batch32 option"

text \<open>\<open>input[key]\<close> on the dictionary the data loader yields, and \<open>.to(self.device)\<close>.\<close>

definition getitem :: "(string \<rightharpoonup> item) \<Rightarrow> string \<Rightarrow> error + item" where
  "getitem d k = (case d k of None \<Rightarrow> Inl (KeyError k) | Some v \<Rightarrow> Inr v)"

definition to_device :: "item \<Rightarrow> error + batch32" where
  "to_device v = (case v of Tensor t \<Rightarrow> Inr t | Strings _ \<Rightarrow> Inl (AttributeError ''to''))"

text \<open>\<open>set_input\<close>: the mask is rescaled by \<open>(self.seg + 1) / 2\<close>, in binary32.\<close>

definition unet_set_input :: "(string \<rightharpoonup> item) \<Rightarrow> unet \<Rightarrow> error + unet" where
  "unet_set_input inp s =
     and_then (getitem inp ''img'') (\<lambda>v. and_then (to_device v) (\<lambda>i.
     let s1 = s\<lparr>img := Some i\<rparr> in
     and_then (getitem inp ''seg'') (\<lambda>v. and_then (to_device v) (\<lambda>g.
     let s2 = s1\<lparr>seg := Some g\<rparr> in
     and_then (attr ''seg'' (seg s2)) (\<lambda>g.
     let s3 = s2\<lparr>seg := Some (batch_map (\<lambda>x. div32 (add32 x 1) 2) g)\<rparr> in
     and_then (getitem inp ''img_paths'') (\<lambda>p.
     Inr (s3\<lparr>image_paths := Some p\<rparr>)))))))"

text \<open>\<open>forward\<close>: \<open>netUnet\<close> is the network built by \<open>get_network_by_name\<close>, external.\<close>

definition unet_forward :: "(batch32 \<Rightarrow> error + batch32) \<Rightarrow> unet \<Rightarrow> error + unet" where
  "unet_forward netUnet s =
     and_then (attr ''img'' (img s)) (\<lambda>i.
     and_then (netUnet i) (\<lambda>y.
     Inr (s\<lparr>net_output := Some y\<rparr>)))"

text \<open>
  \<open>random.randint(a, b)\<close>: ValueError on an empty range, otherwise a value of \<open>a..b\<close>.
  \<open>draw\<close> is what the generator delivers; every value of the range is reached by some
  draw.
\<close>

definition randint :: "int \<Rightarrow> int \<Rightarrow> int \<Rightarrow> error + int" where
  "randint draw a b = (if b < a then Inl ValueError else Inr (a + draw mod (b - a + 1)))"

text \<open>
  \<open>compute_visuals\<close>: the index is drawn from \<open>0 .. opt.batch_size - 1\<close>; the image is
  taken as it is, the two masks are mapped by \<open>y * 2 - 1\<close>, in binary32.
\<close>

definition unet_compute_visuals :: "int \<Rightarrow> opt \<Rightarrow> unet \<Rightarrow> error + unet" where
  "unet_compute_visuals draw opt s =
     and_then (randint draw 0 (batch_size opt - 1)) (\<lambda>idx.
     and_then (attr ''img'' (img s)) (\<lambda>i.
     and_then (index i idx) (\<lambda>x.
     let s1 = s\<lparr>input_image := Some (unsqueeze0 x)\<rparr> in
     and_then (attr ''seg'' (seg s1)) (\<lambda>g.
     and_then (index g idx) (\<lambda>m.
     let s2 = s1\<lparr>true_seg := Some (unsqueeze0 (sample_map (\<lambda>y. sub32 (mul32 y 2) 1) m))\<rparr> in
     and_then (attr ''output'' (net_output s2)) (\<lambda>out.
     and_then (index out idx) (\<lambda>p.
     Inr (s2\<lparr>pred_seg := Some (unsqueeze0 (sample_map (\<lambda>y. sub32 (mul32 y 2) 1) p))\<rparr>))))))))"

subsection \<open>Tolerance of the mask round trip\<close>

text \<open>
  What it means for an exposed mask value \<open>y\<close> to reproduce a loaded mask value \<open>x\<close>
  within floating-point tolerance: a finite \<open>x\<close> is reproduced by a finite \<open>y\<close> that differs
  from it by at most three units of binary32 roundoff, \<open>2 ^ - 24\<close>, at the scale
  \<open>\<bar>x\<bar> + 1\<close> of the intermediate results; an infinity and NaN are reproduced as they are.
  \<open>in_range32\<close> says that a finite value is not larger than the largest binary32 number,
  as every value of a binary32 tensor is.
\<close>

definition within_tolerance :: "float32 \<Rightarrow> float32 \<Rightarrow> bool" where
  "within_tolerance x y =
     (case x of
        Finite v \<Rightarrow> (case y of Finite w \<Rightarrow> \<bar>w - v\<bar> \<le> 3 * (\<bar>v\<bar> + 1) / 2 ^ 24 | _ \<Rightarrow> False)
      | Infinity s \<Rightarrow> y = Infinity s
      | NaN \<Rightarrow> y = NaN)"

definition in_range32 :: "float32 \<Rightarrow> bool" where
  "in_range32 x = (case x of Finite v \<Rightarrow> \<bar>v\<bar> \<le> max_float32 | _ \<Rightarrow> True)"

section \<open>PerceptualCycleGANModel\<close>

subsection \<open>Tensors with autograd history\<close>

text \<open>
  The networks whose parameters the class trains: \<open>netG_A\<close>, \<open>netG_B\<close>, \<open>netD_A\<close>,
  \<open>netD_B\<close>.
\<close>

datatype net = G_A | G_B | D_A | D_B

text \<open>
  A value produced by the tensor library carries its data and its autograd history. Of the
  history the model keeps \<open>grad_fn\<close>: the networks whose parameters the value was computed
  from while gradient tracking was on. It is what decides where \<open>backward()\<close> puts a
  gradient; an input from the data loader and a detached value have none.
\<close>

record 'a tracked =
  data :: 'a
  grad_fn :: "net set"

type_synonym tensor = "batch tracked"
type_synonym scalar = "real tracked"

text \<open>One entry of the log of network invocations: which network, on which input, and
  whether gradient tracking (\<open>torch.is_grad_enabled()\<close>) was on at the call.\<close>

datatype event = Call net batch bool | Call_eval batch bool

text \<open>
  The attributes of a \<open>PerceptualCycleGANModel\<close> object that the embedded methods use,
  with the state of the library they act on: the parameters of each network (with the
  optimizer's per-parameter state), the accumulated gradient of each network (\<open>None\<close>
  after \<open>zero_grad\<close>), the \<open>requires_grad\<close> flag of each network's parameters, the global
  gradient mode, the two image pools, whether \<open>self.eval_net\<close> was loaded, and the log
  of network invocations.
\<close>

record gan =
  real_A :: "tensor option"
  real_B :: "tensor option"
  aux_A :: "tensor option"
  aux_B :: "tensor option"
  fake_A :: "tensor option"
  fake_B :: "tensor option"
  rec_A :: "tensor option"
  rec_B :: "tensor option"
  idt_A :: "tensor option"
  idt_B :: "tensor option"
  loss_idt_A :: "scalar option"
  loss_idt_B :: "scalar option"
  loss_G_A :: "scalar option"
  loss_G_B :: "scalar option"
  loss_cycle_A :: "scalar option"
  loss_cycle_B :: "scalar option"
  loss_G :: "scalar option"
  loss_D_A :: "scalar option"
  loss_D_B :: "scalar option"
  fake_A_pool :: "tensor list"
  fake_B_pool :: "tensor list"
  has_eval_net :: bool
  weights :: "net \<Rightarrow> real list"
  grad :: "net \<Rightarrow> real list option"
  requires_grad :: "net \<Rightarrow> bool"
  grad_enabled :: bool
  trace :: "event list"

text \<open>
  What the class takes from its collaborators, none of them in the two source files: the
  forward function of each network (\<open>networks.define_G\<close>, \<open>networks.define_D\<close>), the
  adversarial criterion (\<open>networks.GANLoss\<close>), the gradient the autograd engine computes
  for a loss and a network, the update rule of the Adam optimizer, the query operation of
  \<open>ImagePool\<close>, and the forward function of the evaluation classifier.
\<close>

record env =
  net_fwd :: "net \<Rightarrow> real list \<Rightarrow> batch \<Rightarrow> error + batch"
  criterionGAN :: "batch \<Rightarrow> bool \<Rightarrow> real"
  autograd :: "scalar \<Rightarrow> net \<Rightarrow> gan \<Rightarrow> real list"
  adam :: "net \<Rightarrow> real list \<Rightarrow> real list \<Rightarrow> real list"
  pool_query :: "tensor list \<Rightarrow> tensor \<Rightarrow> tensor \<times> tensor list"
  eval_fwd :: "batch \<Rightarrow> error + real list list"

text \<open>
  The result of a library operation: it has a history only in gradient mode. \<open>mode\<close> is
  the global gradient mode at the time of the operation, \<open>grad_enabled\<close> of the state.
\<close>

definition result :: "bool \<Rightarrow> 'a \<Rightarrow> net set \<Rightarrow> 'a tracked" where
  "result mode v hist = \<lparr>data = v, grad_fn = (if mode then hist else {})\<rparr>"

definition detach :: "'a tracked \<Rightarrow> 'a tracked" where
  "detach x = \<lparr>data = data x, grad_fn = {}\<rparr>"

text \<open>
  The shape of a rectangular tensor, read off its first entries, and \<open>torch.cat\<close> along
  dimension 0 and 1: the sizes must agree in every other dimension.
\<close>

definition dims :: "batch \<Rightarrow> nat list" where
  "dims t =
     [length t,
      (case t of [] \<Rightarrow> 0 | x # _ \<Rightarrow> length x),
      (case concat t of [] \<Rightarrow> 0 | c # _ \<Rightarrow> length c),
      (case concat (concat t) of [] \<Rightarrow> 0 | r # _ \<Rightarrow> length r)]"

definition cat0 :: "bool \<Rightarrow> tensor \<Rightarrow> tensor \<Rightarrow> error + tensor" where
  "cat0 mode x y =
     (if (dims (data x))[0 := 0] = (dims (data y))[0 := 0]
      then Inr (result mode (data x @ data y) (grad_fn x \<union> grad_fn y))
      else Inl (RuntimeError ''Sizes of tensors must match except in dimension 0''))"

definition cat1 :: "bool \<Rightarrow> tensor \<Rightarrow> tensor \<Rightarrow> error + tensor" where
  "cat1 mode x y =
     (if (dims (data x))[1 := 0] = (dims (data y))[1 := 0]
      then Inr (result mode (map2 (@) (data x) (data y)) (grad_fn x \<union> grad_fn y))
      else Inl (RuntimeError ''Sizes of tensors must match except in dimension 1''))"

text \<open>
  \<open>torch.nn.L1Loss()\<close>: the mean of the absolute differences. Operands of different
  shapes (which the library broadcasts or rejects) and the mean of no elements (NaN in the
  library) are outside the model and reported as errors.
\<close>

definition flatten :: "batch \<Rightarrow> real list" where
  "flatten t = concat (concat (concat t))"

definition mean_abs_diff :: "batch \<Rightarrow> batch \<Rightarrow> real" where
  "mean_abs_diff x y =
     sum_list (map2 (\<lambda>a b. \<bar>a - b\<bar>) (flatten x) (flatten y)) / real (length (flatten x))"

definition L1Loss :: "bool \<Rightarrow> tensor \<Rightarrow> tensor \<Rightarrow> error + scalar" where
  "L1Loss mode x y =
     (if dims (data x) \<noteq> dims (data y) \<or> flatten (data x) = []
      then Inl (RuntimeError ''L1Loss: operand shapes'')
      else Inr (result mode (mean_abs_diff (data x) (data y)) (grad_fn x \<union> grad_fn y)))"

text \<open>Arithmetic on loss values: \<open>x + y\<close>, \<open>x * c\<close> for a Python float \<open>c\<close>, and
  the Python integer \<open>0\<close> the code assigns when the identity loss is off.\<close>

definition add :: "bool \<Rightarrow> scalar \<Rightarrow> scalar \<Rightarrow> scalar" where
  "add mode x y = result mode (data x + data y) (grad_fn x \<union> grad_fn y)"

definition mul :: "bool \<Rightarrow> scalar \<Rightarrow> real \<Rightarrow> scalar" where
  "mul mode x c = result mode (data x * c) (grad_fn x)"

definition py_zero :: scalar where
  "py_zero = \<lparr>data = 0, grad_fn = {}\<rparr>"

text \<open>
  The value of network \<open>n\<close> on \<open>x\<close> in state \<open>s\<close>: its forward function on the input
  and the current parameters. The result's history is the input's, with the network
  itself when its parameters require a gradient. Calling a network yields this value and
  logs the call.
\<close>

definition net_value :: "env \<Rightarrow> gan \<Rightarrow> net \<Rightarrow> tensor \<Rightarrow> error + tensor" where
  "net_value env s n x =
     and_then (net_fwd env n (weights s n) (data x)) (\<lambda>y.
     Inr (result (grad_enabled s) y (grad_fn x \<union> (if requires_grad s n then {n} else {}))))"

definition call_net :: "env \<Rightarrow> net \<Rightarrow> tensor \<Rightarrow> gan \<Rightarrow> error + (tensor \<times> gan)" where
  "call_net env n x s =
     and_then (net_value env s n x) (\<lambda>y.
     Inr (y, s\<lparr>trace := trace s @ [Call n (data x) (grad_enabled s)]\<rparr>))"

text \<open>\<open>self.criterionGAN(prediction, target_is_real)\<close>.\<close>

definition gan_loss :: "env \<Rightarrow> bool \<Rightarrow> tensor \<Rightarrow> bool \<Rightarrow> scalar" where
  "gan_loss env mode p target = result mode (criterionGAN env (data p) target) (grad_fn p)"

text \<open>
  \<open>loss.backward()\<close>: every network in the history of the loss receives the gradient
  the engine computes, added to what it has accumulated. A loss without history cannot be
  differentiated.
\<close>

definition accumulate :: "real list option \<Rightarrow> real list \<Rightarrow> real list" where
  "accumulate old g = (case old of None \<Rightarrow> g | Some h \<Rightarrow> map2 (+) h g)"

definition backward :: "env \<Rightarrow> scalar \<Rightarrow> gan \<Rightarrow> error + gan" where
  "backward env l s =
     (if grad_fn l = {}
      then Inl (RuntimeError ''element 0 of tensors does not require grad and does not have a grad_fn'')
      else Inr (s\<lparr>grad := (\<lambda>n. if n \<in> grad_fn l
                               then Some (accumulate (grad s n) (autograd env l n s))
                               else grad s n)\<rparr>))"

text \<open>
  The two optimizers, by the networks whose parameters they were given in \<open>__init__\<close>:
  \<open>optimizer_G\<close> over \<open>itertools.chain(netG_A.parameters(), netG_B.parameters())\<close>,
  \<open>optimizer_D\<close> over the two discriminators. \<open>zero_grad\<close> clears the gradients of the
  optimizer's parameters, \<open>step\<close> updates the optimizer's parameters that have a
  gradient.
\<close>

definition optimizer_G :: "net list" where
  "optimizer_G = [G_A, G_B]"

definition optimizer_D :: "net list" where
  "optimizer_D = [D_A, D_B]"

definition zero_grad :: "net list \<Rightarrow> gan \<Rightarrow> gan" where
  "zero_grad params s = s\<lparr>grad := (\<lambda>n. if n \<in> set params then None else grad s n)\<rparr>"

definition step :: "env \<Rightarrow> net list \<Rightarrow> gan \<Rightarrow> gan" where
  "step env params s =
     s\<lparr>weights := (\<lambda>n. if n \<in> set params
                        then (case grad s n of None \<Rightarrow> weights s n
                                            | Some g \<Rightarrow> adam env n (weights s n) g)
                        else weights s n)\<rparr>"

text \<open>
  Modelled from the spec: \<open>BaseModel.set_requires_grad(nets, flag)\<close> is inherited from
  a file that is not among the sources; the spec says it disables or re-enables gradient
  tracking on the networks given.
\<close>

definition set_requires_grad :: "net list \<Rightarrow> bool \<Rightarrow> gan \<Rightarrow> gan" where
  "set_requires_grad nets flag s =
     s\<lparr>requires_grad := (\<lambda>n. if n \<in> set nets then flag else requires_grad s n)\<rparr>"

subsection \<open>forward\<close>

text \<open>
  \<open>self.netX(torch.cat((self.p, self.q), dim=1))\<close>, the expression the class evaluates six
  times: read the two attributes, concatenate along the channel dimension, call the
  network.
\<close>

definition net_on_cat ::
  "env \<Rightarrow> net \<Rightarrow> string \<Rightarrow> (gan \<Rightarrow> tensor option) \<Rightarrow> string \<Rightarrow> (gan \<Rightarrow> tensor option) \<Rightarrow> gan
     \<Rightarrow> error + (tensor \<times> gan)" where
  "net_on_cat env n pname p qname q s =
     and_then (attr pname (p s)) (\<lambda>x.
     and_then (attr qname (q s)) (\<lambda>a.
     and_then (cat1 (grad_enabled s) x a) (\<lambda>i.
     call_net env n i s)))"

definition forward :: "env \<Rightarrow> gan \<Rightarrow> error + gan" where
  "forward env s0 =
     and_then (net_on_cat env G_A ''real_A'' real_A ''aux_A'' aux_A s0) (\<lambda>(y, s).
     let s1 = s\<lparr>fake_B := Some y\<rparr> in
     and_then (net_on_cat env G_B ''fake_B'' fake_B ''aux_A'' aux_A s1) (\<lambda>(y, s).
     let s2 = s\<lparr>rec_A := Some y\<rparr> in
     and_then (net_on_cat env G_B ''real_B'' real_B ''aux_B'' aux_B s2) (\<lambda>(y, s).
     let s3 = s\<lparr>fake_A := Some y\<rparr> in
     and_then (net_on_cat env G_A ''fake_A'' fake_A ''aux_B'' aux_B s3) (\<lambda>(y, s).
     Inr (s\<lparr>rec_B := Some y\<rparr>)))))"

subsection \<open>Discriminator losses\<close>

definition backward_D_basic ::
  "env \<Rightarrow> net \<Rightarrow> tensor \<Rightarrow> tensor \<Rightarrow> gan \<Rightarrow> error + (scalar \<times> gan)" where
  "backward_D_basic env netD real_t fake s0 =
     and_then (call_net env netD real_t s0) (\<lambda>(pred_real, s1).
     let loss_D_real = gan_loss env (grad_enabled s1) pred_real True in
     and_then (call_net env netD (detach fake) s1) (\<lambda>(pred_fake, s2).
     let loss_D_fake = gan_loss env (grad_enabled s2) pred_fake False;
         loss_D = mul (grad_enabled s2) (add (grad_enabled s2) loss_D_real loss_D_fake) 0.5 in
     and_then (backward env loss_D s2) (\<lambda>s3.
     Inr (loss_D, s3))))"

definition backward_D_A :: "env \<Rightarrow> gan \<Rightarrow> error + gan" where
  "backward_D_A env s0 =
     and_then (attr ''fake_B'' (fake_B s0)) (\<lambda>f.
     let (fake, pool) = pool_query env (fake_B_pool s0) f;
         s1 = s0\<lparr>fake_B_pool := pool\<rparr> in
     and_then (attr ''real_B'' (real_B s1)) (\<lambda>r.
     and_then (backward_D_basic env D_A r fake s1) (\<lambda>(l, s2).
     Inr (s2\<lparr>loss_D_A := Some l\<rparr>))))"

definition backward_D_B :: "env \<Rightarrow> gan \<Rightarrow> error + gan" where
  "backward_D_B env s0 =
     and_then (attr ''fake_A'' (fake_A s0)) (\<lambda>f.
     let (fake, pool) = pool_query env (fake_A_pool s0) f;
         s1 = s0\<lparr>fake_A_pool := pool\<rparr> in
     and_then (attr ''real_A'' (real_A s1)) (\<lambda>r.
     and_then (backward_D_basic env D_B r fake s1) (\<lambda>(l, s2).
     Inr (s2\<lparr>loss_D_B := Some l\<rparr>))))"

subsection \<open>Generator losses\<close>

text \<open>The identity branch of \<open>backward_G\<close> (the \<open>if lambda_idt > 0\<close> statement).\<close>

definition identity_losses :: "env \<Rightarrow> opt \<Rightarrow> gan \<Rightarrow> error + gan" where
  "identity_losses env opt s0 =
     (let lambda_idt = lambda_identity opt; lam_A = lambda_A opt; lam_B = lambda_B opt in
      if lambda_idt > 0 then
        and_then (net_on_cat env G_A ''real_B'' real_B ''aux_B'' aux_B s0) (\<lambda>(y, s).
        let s1 = s\<lparr>idt_A := Some y\<rparr> in
        and_then (attr ''idt_A'' (idt_A s1)) (\<lambda>i.
        and_then (attr ''real_B'' (real_B s1)) (\<lambda>r.
        and_then (L1Loss (grad_enabled s1) i r) (\<lambda>l.
        let m = grad_enabled s1;
            s2 = s1\<lparr>loss_idt_A := Some (mul m (mul m l lam_B) lambda_idt)\<rparr> in
        and_then (net_on_cat env G_B ''real_A'' real_A ''aux_A'' aux_A s2) (\<lambda>(y, s).
        let s3 = s\<lparr>idt_B := Some y\<rparr> in
        and_then (attr ''idt_B'' (idt_B s3)) (\<lambda>i.
        and_then (attr ''real_A'' (real_A s3)) (\<lambda>r.
        and_then (L1Loss (grad_enabled s3) i r) (\<lambda>l.
        let m = grad_enabled s3 in
        Inr (s3\<lparr>loss_idt_B := Some (mul m (mul m l lam_A) lambda_idt)\<rparr>)))))))))
      else Inr (s0\<lparr>loss_idt_A := Some py_zero, loss_idt_B := Some py_zero\<rparr>))"

text \<open>The adversarial and cycle losses of \<open>backward_G\<close>.\<close>

definition adversarial_cycle_losses :: "env \<Rightarrow> opt \<Rightarrow> gan \<Rightarrow> error + gan" where
  "adversarial_cycle_losses env opt s0 =
     (let lam_A = lambda_A opt; lam_B = lambda_B opt in
      and_then (attr ''fake_B'' (fake_B s0)) (\<lambda>f.
      and_then (call_net env D_A f s0) (\<lambda>(p, s).
      let s1 = s\<lparr>loss_G_A := Some (gan_loss env (grad_enabled s) p True)\<rparr> in
      and_then (attr ''fake_A'' (fake_A s1)) (\<lambda>f.
      and_then (call_net env D_B f s1) (\<lambda>(p, s).
      let s2 = s\<lparr>loss_G_B := Some (gan_loss env (grad_enabled s) p True)\<rparr> in
      and_then (attr ''rec_A'' (rec_A s2)) (\<lambda>x.
      and_then (attr ''real_A'' (real_A s2)) (\<lambda>r.
      and_then (L1Loss (grad_enabled s2) x r) (\<lambda>l.
      let s3 = s2\<lparr>loss_cycle_A := Some (mul (grad_enabled s2) l lam_A)\<rparr> in
      and_then (attr ''rec_B'' (rec_B s3)) (\<lambda>x.
      and_then (attr ''real_B'' (real_B s3)) (\<lambda>r.
      and_then (L1Loss (grad_enabled s3) x r) (\<lambda>l.
      Inr (s3\<lparr>loss_cycle_B := Some (mul (grad_enabled s3) l lam_B)\<rparr>))))))))))))"

text \<open>
  The last two statements of \<open>backward_G\<close>: the sum, associated to the left as Python
  evaluates it, and \<open>self.loss_G.backward()\<close>.
\<close>

definition total_loss :: "env \<Rightarrow> gan \<Rightarrow> error + gan" where
  "total_loss env s =
     and_then (attr ''loss_G_A'' (loss_G_A s)) (\<lambda>ga.
     and_then (attr ''loss_G_B'' (loss_G_B s)) (\<lambda>gb.
     and_then (attr ''loss_cycle_A'' (loss_cycle_A s)) (\<lambda>ca.
     and_then (attr ''loss_cycle_B'' (loss_cycle_B s)) (\<lambda>cb.
     and_then (attr ''loss_idt_A'' (loss_idt_A s)) (\<lambda>ia.
     and_then (attr ''loss_idt_B'' (loss_idt_B s)) (\<lambda>ib.
     let m = grad_enabled s;
         s1 = s\<lparr>loss_G := Some (add m (add m (add m (add m (add m ga gb) ca) cb) ia) ib)\<rparr> in
     and_then (attr ''loss_G'' (loss_G s1)) (\<lambda>l.
     backward env l s1)))))))"

definition backward_G :: "env \<Rightarrow> opt \<Rightarrow> gan \<Rightarrow> error + gan" where
  "backward_G env opt s =
     and_then (identity_losses env opt s) (\<lambda>s1.
     and_then (adversarial_cycle_losses env opt s1) (\<lambda>s2.
     total_loss env s2))"

subsection \<open>optimize_parameters\<close>

text \<open>
  The body of \<open>optimize_parameters\<close> after \<open>self.forward()\<close>, in the two parts its
  comments name: the generator part (\<open># G_A and G_B\<close>) and the discriminator part
  (\<open># D_A and D_B\<close>).
\<close>

definition generator_step :: "env \<Rightarrow> opt \<Rightarrow> gan \<Rightarrow> error + gan" where
  "generator_step env opt s =
     (let s1 = set_requires_grad [D_A, D_B] False s;
          s2 = zero_grad optimizer_G s1 in
      and_then (backward_G env opt s2) (\<lambda>s3.
      Inr (step env optimizer_G s3)))"

definition discriminator_step :: "env \<Rightarrow> gan \<Rightarrow> error + gan" where
  "discriminator_step env s =
     (let s1 = set_requires_grad [D_A, D_B] True s;
          s2 = zero_grad optimizer_D s1 in
      and_then (backward_D_A env s2) (\<lambda>s3.
      and_then (backward_D_B env s3) (\<lambda>s4.
      Inr (step env optimizer_D s4))))"

definition optimize_parameters :: "env \<Rightarrow> opt \<Rightarrow> gan \<Rightarrow> error + gan" where
  "optimize_parameters env opt s =
     and_then (forward env s) (\<lambda>s1.
     and_then (generator_step env opt s1) (\<lambda>s2.
     discriminator_step env s2))"

subsection \<open>model_evaluation\<close>

text \<open>\<open>torch.zeros(n)\<close> and \<open>torch.ones(n)\<close>: a negative size is refused.\<close>

definition filled :: "real \<Rightarrow> int \<Rightarrow> error + real list" where
  "filled v n =
     (if n < 0 then Inl (RuntimeError ''Trying to create tensor with negative dimension'')
      else Inr (replicate (nat n) v))"

text \<open>
  \<open>torch.max(preds, 1)\<close>, second component: for each row the index of its maximum, the
  first one when the maximum is reached several times; a row without entries is refused.
\<close>

primrec argmax_from :: "real \<Rightarrow> nat \<Rightarrow> nat \<Rightarrow> real list \<Rightarrow> nat" where
  "argmax_from best pos i [] = pos"
| "argmax_from best pos i (x # xs) =
     (if best < x then argmax_from x i (Suc i) xs else argmax_from best pos (Suc i) xs)"

definition argmax :: "real list \<Rightarrow> error + nat" where
  "argmax row = (case row of [] \<Rightarrow> Inl IndexError | x # xs \<Rightarrow> Inr (argmax_from x 0 1 xs))"

primrec collect :: "(error + 'a) list \<Rightarrow> error + 'a list" where
  "collect [] = Inr []"
| "collect (m # ms) = and_then m (\<lambda>x. and_then (collect ms) (\<lambda>xs. Inr (x # xs)))"

text \<open>Calling \<open>self.eval_net\<close>: AttributeError when it was not loaded; the call is logged.\<close>

definition call_eval :: "env \<Rightarrow> tensor \<Rightarrow> gan \<Rightarrow> error + (real list list \<times> gan)" where
  "call_eval env x s =
     (if \<not> has_eval_net s then Inl (AttributeError ''eval_net'')
      else and_then (eval_fwd env (data x)) (\<lambda>y.
           Inr (y, s\<lparr>trace := trace s @ [Call_eval (data x) (grad_enabled s)]\<rparr>)))"

text \<open>
  \<open>model_evaluation\<close> returns the pair \<open>(preds, labels)\<close>. \<open>self.batch_size\<close> is
  \<open>opt.batch_size\<close>, assigned in \<open>__init__\<close>. The \<open>with torch.no_grad()\<close> block encloses
  the call of the evaluation network only: gradient mode is switched off before it and
  restored after it.
\<close>

definition model_evaluation :: "env \<Rightarrow> opt \<Rightarrow> gan \<Rightarrow> error + ((nat list \<times> real list) \<times> gan)" where
  "model_evaluation env opt s0 =
     and_then (forward env s0) (\<lambda>s1.
     and_then (attr ''fake_A'' (fake_A s1)) (\<lambda>a.
     and_then (attr ''fake_B'' (fake_B s1)) (\<lambda>b.
     and_then (cat0 (grad_enabled s1) a b) (\<lambda>images.
     and_then (filled 0 (batch_size opt)) (\<lambda>zeros.
     and_then (filled 1 (batch_size opt)) (\<lambda>ones.
     let labels = zeros @ ones;
         s2 = s1\<lparr>grad_enabled := False\<rparr> in
     and_then (call_eval env images s2) (\<lambda>(preds, s3).
     let s4 = s3\<lparr>grad_enabled := grad_enabled s1\<rparr> in
     and_then (collect (map argmax preds)) (\<lambda>preds.
     Inr ((preds, labels), s4)))))))))"

subsection \<open>Autograd histories of attributes\<close>

text \<open>
  The history of an attribute that holds a tensor or a loss (none when the attribute is
  unset), and the joint history of the four inputs of the forward pass. Images from the
  data loader and the auxiliary feature maps, which \<open>set_input\<close> builds from a detached
  activation, have none.
\<close>

definition hist :: "'a tracked option \<Rightarrow> net set" where
  "hist t = (case t of None \<Rightarrow> {} | Some x \<Rightarrow> grad_fn x)"

definition inputs_hist :: "gan \<Rightarrow> net set" where
  "inputs_hist s = hist (real_A s) \<union> hist (aux_A s) \<union> hist (real_B s) \<union> hist (aux_B s)"

section \<open>Concrete inputs\<close>

text \<open>Options as the command line gives them by default, with \<open>lambda_identity = 0.5\<close>.\<close>

definition opt0 :: opt where
  "opt0 =
     \<lparr>unet_type = ''unet'', input_nc = 3, label_num = 1, load_size = 286, crop_size = 256,
      batch_size = 1, lambda_A = 10, lambda_B = 10, lambda_identity = 1 / 2\<rparr>"

text \<open>
  A fresh \<open>UnetModel\<close>, a sample of two images of one channel and 1 x 2 pixels with their
  masks, and the model after \<open>set_input\<close> on that sample and a forward pass. The mask
  values are the two labels \<open>- 1\<close> and \<open>1\<close>, the value \<open>1 / 4\<close>, and \<open>2 ^ - 30\<close>, which
  is lost when \<open>1\<close> is added to it in binary32.
\<close>

definition unet0 :: unet where
  "unet0 = \<lparr>img = None, seg = None, image_paths = None, net_output = None,
            input_image = None, true_seg = None, pred_seg = None\<rparr>"

definition sample0 :: "string \<rightharpoonup> item" where
  "sample0 =
     [''img'' \<mapsto> Tensor [[[[Finite (1 / 2), Finite 0]]], [[[Finite 1, Finite 1]]]],
      ''seg'' \<mapsto> Tensor [[[[Finite (- 1), Finite 1]]], [[[Finite (1 / 4), Finite (1 / 2 ^ 30)]]]],
      ''img_paths'' \<mapsto> Strings [''a.png'', ''b.png'']]"

definition netUnet0 :: "batch32 \<Rightarrow> error + batch32" where
  "netUnet0 x = Inr (batch_map (\<lambda>v. div32 (add32 v 1) 2) x)"

definition unet1 :: unet where
  "unet1 =
     \<lparr>img = Some [[[[Finite (1 / 2), Finite 0]]], [[[Finite 1, Finite 1]]]],
      seg = Some [[[[Finite 0, Finite 1]]], [[[Finite (5 / 8), Finite (1 / 2)]]]],
      image_paths = Some (Strings [''a.png'', ''b.png'']),
      net_output = Some [[[[Finite (3 / 4), Finite (1 / 2)]]], [[[Finite 1, Finite 1]]]],
      input_image = None, true_seg = None, pred_seg = None\<rparr>"

text \<open>
  A collaborator set for the Perceptual-CycleGAN and a freshly configured model with its
  inputs set: single images of one channel and one pixel. Every network takes the first
  channel of its input and adds the sum of its parameters; the adversarial criterion is
  the least-squares one; the engine's gradient is a list holding the loss value; the
  optimizer subtracts the gradient; the pool returns the image it is given and stores a
  detached copy; the evaluation classifier scores class 0 with the pixel sum and class 1
  with 7/4. \<open>gan1\<close> is \<open>gan0\<close> after \<open>forward\<close>.
\<close>

definition leaf :: "'a \<Rightarrow> 'a tracked" where
  "leaf v = \<lparr>data = v, grad_fn = {}\<rparr>"

definition env0 :: env where
  "env0 =
     \<lparr>net_fwd = (\<lambda>n w x. Inr (batch_map (\<lambda>v. v + sum_list w) (map (take 1) x))),
      criterionGAN = (\<lambda>p target. mean_abs_diff (batch_map (\<lambda>v. v * v) (batch_map (\<lambda>v. v - (if target then 1 else 0)) p)) (batch_map (\<lambda>v. 0) p)),
      autograd = (\<lambda>l n s. [data l]),
      adam = (\<lambda>n w g. map2 (-) w g),
      pool_query = (\<lambda>pool x. (x, pool @ [detach x])),
      eval_fwd = (\<lambda>x. Inr (map (\<lambda>c. [sum_list (concat (concat c)), 7 / 4]) x))\<rparr>"

definition gan0 :: gan where
  "gan0 =
     \<lparr>real_A = Some (leaf [[[[1]]]]), real_B = Some (leaf [[[[2]]]]),
      aux_A = Some (leaf [[[[0]]]]), aux_B = Some (leaf [[[[0]]]]),
      fake_A = None, fake_B = None, rec_A = None, rec_B = None, idt_A = None, idt_B = None,
      loss_idt_A = None, loss_idt_B = None, loss_G_A = None, loss_G_B = None,
      loss_cycle_A = None, loss_cycle_B = None, loss_G = None, loss_D_A = None,
      loss_D_B = None, fake_A_pool = [], fake_B_pool = [], has_eval_net = True,
      weights = (\<lambda>n. case n of G_A \<Rightarrow> [1] | G_B \<Rightarrow> [- (1 / 2)] | D_A \<Rightarrow> [0] | D_B \<Rightarrow> [0]),
      grad = (\<lambda>n. None), requires_grad = (\<lambda>n. True), grad_enabled = True, trace = []\<rparr>"

definition gan1 :: gan where
  "gan1 =
     gan0\<lparr>fake_B := Some \<lparr>data = [[[[2]]]], grad_fn = {G_A}\<rparr>,
          rec_A := Some \<lparr>data = [[[[3 / 2]]]], grad_fn = {G_A, G_B}\<rparr>,
          fake_A := Some \<lparr>data = [[[[3 / 2]]]], grad_fn = {G_B}\<rparr>,
          rec_B := Some \<lparr>data = [[[[5 / 2]]]], grad_fn = {G_A, G_B}\<rparr>,
          trace := [Call G_A [[[[1]], [[0]]]] True, Call G_B [[[[2]], [[0]]]] True,
                    Call G_B [[[[2]], [[0]]]] True, Call G_A [[[[3 / 2]], [[0]]]] True]\<rparr>"

text \<open>The value a field has after a step; \<open>None\<close> when the step raised.\<close>

definition after :: "error + 's \<Rightarrow> ('s \<Rightarrow> 'a option) \<Rightarrow> 'a option" where
  "after r f = (case r of Inl _ \<Rightarrow> None | Inr s \<Rightarrow> f s)"

section \<open>Properties of UnetModel\<close>

subsection \<open>Results of the error-propagating steps\<close>

lemma and_then_Inr: "and_then m f = Inr y \<longleftrightarrow> (\<exists>x. m = Inr x \<and> f x = Inr y)"
  by (cases m) (simp_all add: and_then_def)

lemma attr_Inr: "attr name v = Inr x \<longleftrightarrow> v = Some x"
  by (cases v) (simp_all add: attr_def)

lemma index_Inr: "index t i = Inr x \<longleftrightarrow> 0 \<le> i \<and> i < int (length t) \<and> x = t ! nat i"
  by (auto simp add: index_def)

lemma randint_Inr: "randint d a b = Inr i \<longleftrightarrow> a \<le> b \<and> i = a + d mod (b - a + 1)"
  by (auto simp add: randint_def)

subsection \<open>Selection of the architecture\<close>

text \<open>
  C7. For a \<open>unet_type\<close> that is none of the five recognized names,
  \<open>get_network_by_name\<close> raises NotImplementedError with a message that contains the
  name, leaves the options as they were and has constructed no network, whatever the GPU
  configuration. For each of the five names the network constructed is the one of the
  corresponding class.
\<close>

theorem unet_type_dispatch:
  "(unet_type opt \<notin> set recognized \<longrightarrow>
      get_network_by_name gpus cuda opt =
        (Inl (NotImplementedError (''Unet model name ['' @ unet_type opt @ ''] is not recognized'')),
         opt, []))
   \<and> (unet_type opt = ''unet'' \<longrightarrow>
        constructed (get_network_by_name gpus cuda opt) = [construct_net UNet opt])
   \<and> (unet_type opt = ''unet_2plus'' \<longrightarrow>
        constructed (get_network_by_name gpus cuda opt) = [construct_net UNet_2Plus opt])
   \<and> (unet_type opt = ''unet_3plus'' \<longrightarrow>
        constructed (get_network_by_name gpus cuda opt) = [construct_net UNet_3Plus opt])
   \<and> (unet_type opt = ''unet_3plus_deepsup'' \<longrightarrow>
        constructed (get_network_by_name gpus cuda opt) = [construct_net UNet_3Plus_DeepSup opt])
   \<and> (unet_type opt = ''unet_3plus_deepsup_cgm'' \<longrightarrow>
        constructed (get_network_by_name gpus cuda opt) =
          [construct_net UNet_3Plus_DeepSup_CGM opt])"
  by (simp add: get_network_by_name_def recognized_def constructed_def Let_def split: list.split)

theorem unet_type_dispatch_witness:
  "get_network_by_name [] False (opt0\<lparr>unet_type := ''unet_4plus''\<rparr>) =
     (Inl (NotImplementedError ''Unet model name [unet_4plus] is not recognized''),
      opt0\<lparr>unet_type := ''unet_4plus''\<rparr>, [])
   \<and> constructed (get_network_by_name [0] True opt0) = [construct_net UNet opt0]
   \<and> constructed (get_network_by_name [0] True (opt0\<lparr>unet_type := ''unet_3plus''\<rparr>)) =
       [construct_net UNet_3Plus (opt0\<lparr>unet_type := ''unet_3plus''\<rparr>)]"
  using unet_type_dispatch [of "opt0\<lparr>unet_type := ''unet_4plus''\<rparr>" "[]" False]
    unet_type_dispatch [of opt0 "[0]" True]
    unet_type_dispatch [of "opt0\<lparr>unet_type := ''unet_3plus''\<rparr>" "[0]" True]
  by (simp add: opt0_def recognized_def)

subsection \<open>Construction without a GPU\<close>

text \<open>
  C10, as stated, says that every options value with an empty \<open>gpu_ids\<close> list ends in the
  unbound-local error. With an unrecognized \<open>unet_type\<close> the call never reaches its
  \<open>return\<close>: it raises NotImplementedError.
\<close>

theorem cpu_only_counterexample:
  "outcome (get_network_by_name [] True (opt0\<lparr>unet_type := ''unet_4plus''\<rparr>)) =
     Inl (NotImplementedError ''Unet model name [unet_4plus] is not recognized'')
   \<and> outcome (get_network_by_name [] True (opt0\<lparr>unet_type := ''unet_4plus''\<rparr>)) \<noteq>
     Inl (UnboundLocalError ''net'')"
  by (simp add: get_network_by_name_def outcome_def opt0_def Let_def)

text \<open>
  C10, amended. \<open>get_network_by_name\<close> returns a network only when \<open>self.gpu_ids\<close> is not
  empty. With an empty list and a recognized \<open>unet_type\<close> it raises UnboundLocalError for
  the local \<open>net\<close>; with an empty list and an unrecognized \<open>unet_type\<close> it raises
  NotImplementedError.
\<close>

theorem cpu_only_fails:
  "(outcome (get_network_by_name gpus cuda opt) = Inr n \<longrightarrow> gpus \<noteq> [])
   \<and> (unet_type opt \<in> set recognized \<longrightarrow>
        outcome (get_network_by_name [] cuda opt) = Inl (UnboundLocalError ''net''))
   \<and> (unet_type opt \<notin> set recognized \<longrightarrow>
        outcome (get_network_by_name [] cuda opt) =
          Inl (NotImplementedError (''Unet model name ['' @ unet_type opt @ ''] is not recognized'')))"
  by (auto simp add: get_network_by_name_def recognized_def outcome_def Let_def
        split: list.splits if_splits)

theorem cpu_only_fails_witness:
  "outcome (get_network_by_name [0] True opt0) =
      Inr (DataParallel ((construct_net UNet opt0)\<lparr>device := Some 0\<rparr>) [0])
   \<and> outcome (get_network_by_name [] True opt0) = Inl (UnboundLocalError ''net'')
   \<and> outcome (get_network_by_name [] True (opt0\<lparr>unet_type := ''unet_4plus''\<rparr>)) =
       Inl (NotImplementedError ''Unet model name [unet_4plus] is not recognized'')"
  using cpu_only_fails [of "[0]" True opt0
      "DataParallel ((construct_net UNet opt0)\<lparr>device := Some 0\<rparr>) [0]"]
    cpu_only_fails [of "[]" True "opt0\<lparr>unet_type := ''unet_4plus''\<rparr>"]
  by (simp add: opt0_def recognized_def get_network_by_name_def outcome_def Let_def)

subsection \<open>Rounding to binary32\<close>

lemma find_rev_upto_Some:
  "find P (rev [a..b]) = Some e \<longleftrightarrow> a \<le> e \<and> e \<le> b \<and> P e \<and> (\<forall>k. e < k \<and> k \<le> b \<longrightarrow> \<not> P k)"
proof (induction "nat (b - a + 1)" arbitrary: b)
  case 0
  then have "b < a"
    by simp
  then show ?case
    by auto
next
  case (Suc n)
  then have le: "a \<le> b" and n: "n = nat (b - 1 - a + 1)"
    by simp_all
  from le have r: "rev [a..b] = b # rev [a..b - 1]"
    by (simp add: upto_rec2)
  show ?case
  proof (cases "P b")
    case True
    with le show ?thesis
      unfolding r by (auto simp add: not_less) (metis le_less)
  next
    case False
    have "k \<le> b - 1 \<longleftrightarrow> k \<le> b \<and> k \<noteq> b" for k
      by auto
    with False Suc.hyps(1) [OF n] show ?thesis
      unfolding r by auto
  qed
qed

lemma find_rev_upto_None:
  "find P (rev [a..b]) = None \<longleftrightarrow> (\<forall>k. a \<le> k \<and> k \<le> b \<longrightarrow> \<not> P k)"
  by (auto simp add: find_None_iff)

lemma pow2_pos [simp]: "0 < (2::real) powi e"
  by (simp add: zero_less_power_int)

lemma pow2_mono: "a \<le> b \<Longrightarrow> (2::real) powi a \<le> 2 powi b"
  by (simp add: power_int_increasing)

lemma pow2_strict_mono: "a < b \<Longrightarrow> (2::real) powi a < 2 powi b"
  by (simp add: power_int_strict_increasing)

lemma pow2_le_iff: "(2::real) powi a \<le> 2 powi b \<longleftrightarrow> a \<le> b"
  using pow2_mono [of a b] pow2_strict_mono [of b a] by (auto simp add: not_le [symmetric])

lemma pow2_less_iff: "(2::real) powi a < 2 powi b \<longleftrightarrow> a < b"
  using pow2_le_iff [of b a] by (auto simp add: not_le [symmetric])

lemma pow2_add: "(2::real) powi (a + b) = 2 powi a * 2 powi b"
  by (simp add: power_int_add)

lemma pow2_diff: "(2::real) powi (a - b) = 2 powi a / 2 powi b"
  by (simp add: power_int_diff)

lemma pow2_shift:
  "(2::real) powi (e + 1) = 16777216 * 2 powi (e - 23)"
  "(2::real) powi (e - 24) = 2 powi (e - 23) / 2"
  "(2::real) powi (e + 24) = 16777216 * 2 powi e"
  "(2::real) powi (e - 24) = 2 powi e / 16777216"
  "(2::real) powi (e + 1) = 2 * 2 powi e"
  "(2::real) powi (e - 1) = 2 powi e / 2"
  using pow2_add [of "e - 23" 24] pow2_diff [of "e - 23" 1] pow2_add [of e 24]
    pow2_diff [of e 24] pow2_add [of e 1] pow2_diff [of e 1]
  by (simp_all add: ac_simps)

lemma exponent_range: "- 126 \<le> exponent r" "exponent r \<le> 127"
proof -
  have "- 126 \<le> exponent r \<and> exponent r \<le> 127"
  proof (cases "find (\<lambda>e. 2 powi e \<le> \<bar>r\<bar>) (rev [- 126..127])")
    case None
    then show ?thesis
      by (simp only: exponent_def option.case) simp
  next
    case (Some e)
    then have "exponent r = e"
      by (simp only: exponent_def option.case)
    with Some show ?thesis
      unfolding find_rev_upto_Some by simp
  qed
  then show "- 126 \<le> exponent r" "exponent r \<le> 127"
    by simp_all
qed

lemma exponent_eq:
  assumes "- 126 \<le> e" "e \<le> 127" "2 powi e \<le> \<bar>r\<bar>" "\<bar>r\<bar> < 2 powi (e + 1)"
  shows "exponent r = e"
proof -
  have "\<not> 2 powi k \<le> \<bar>r\<bar>" if "e < k" for k :: int
  proof -
    from that have "(2::real) powi (e + 1) \<le> 2 powi k"
      by (simp add: pow2_mono)
    with assms(4) show ?thesis
      by simp
  qed
  with assms(1-3) have "find (\<lambda>e. 2 powi e \<le> \<bar>r\<bar>) (rev [- 126..127]) = Some e"
    unfolding find_rev_upto_Some by simp
  then show ?thesis
    by (simp only: exponent_def option.case)
qed

lemma exponent_small:
  assumes "\<bar>r\<bar> < 2 powi (- 126)"
  shows "exponent r = - 126"
proof -
  have "\<not> 2 powi k \<le> \<bar>r\<bar>" if "- 126 \<le> k" for k :: int
  proof -
    from that have "(2::real) powi (- 126) \<le> 2 powi k"
      by (rule pow2_mono)
    with assms show ?thesis
      by simp
  qed
  then have "find (\<lambda>e. 2 powi e \<le> \<bar>r\<bar>) (rev [- 126..127]) = None"
    unfolding find_rev_upto_None by simp
  then show ?thesis
    by (simp only: exponent_def option.case)
qed

lemma exponent_le:
  assumes "2 powi (- 126) \<le> \<bar>r\<bar>"
  shows "2 powi exponent r \<le> \<bar>r\<bar>"
proof (cases "find (\<lambda>e. 2 powi e \<le> \<bar>r\<bar>) (rev [- 126..127])")
  case None
  then have "\<not> 2 powi (- 126) \<le> \<bar>r\<bar>"
    unfolding find_rev_upto_None by auto
  with assms show ?thesis
    by simp
next
  case (Some e)
  then have "exponent r = e"
    by (simp only: exponent_def option.case)
  with Some show ?thesis
    unfolding find_rev_upto_Some by simp
qed

lemma exponent_gt:
  assumes "\<bar>r\<bar> < 2 powi 128"
  shows "\<bar>r\<bar> < 2 powi (exponent r + 1)"
proof (cases "find (\<lambda>e. 2 powi e \<le> \<bar>r\<bar>) (rev [- 126..127])")
  case None
  then have e: "exponent r = - 126"
    by (simp only: exponent_def option.case)
  from None have "\<not> 2 powi (- 126) \<le> \<bar>r\<bar>"
    unfolding find_rev_upto_None by auto
  moreover have "(2::real) powi (- 126) \<le> 2 powi (- 126 + 1)"
    by (rule pow2_mono) simp
  ultimately show ?thesis
    unfolding e by linarith
next
  case (Some e)
  then have e: "exponent r = e"
    by (simp only: exponent_def option.case)
  from Some have r: "e \<le> 127"
    and up: "\<forall>k. e < k \<and> k \<le> 127 \<longrightarrow> \<not> 2 powi k \<le> \<bar>r\<bar>"
    unfolding find_rev_upto_Some by simp_all
  show ?thesis
  proof (cases "e = 127")
    case True
    with assms e show ?thesis
      by simp
  next
    case False
    with r up have "\<not> 2 powi (e + 1) \<le> \<bar>r\<bar>"
      by simp
    with e show ?thesis
      by simp
  qed
qed

lemma exponent_bound:
  assumes "\<bar>r\<bar> < 2 powi (k + 1)" "- 126 \<le> k"
  shows "exponent r \<le> k"
proof (cases "2 powi (- 126) \<le> \<bar>r\<bar>")
  case True
  from exponent_le [OF True] assms(1) have "(2::real) powi exponent r < 2 powi (k + 1)"
    by simp
  then show ?thesis
    by (simp add: pow2_less_iff)
next
  case False
  then have "exponent r = - 126"
    by (simp add: exponent_small)
  with assms(2) show ?thesis
    by simp
qed

lemma round_even_error: "\<bar>of_int (round_even q) - q\<bar> \<le> 1 / 2"
proof -
  have "of_int \<lfloor>q\<rfloor> \<le> q" "q < of_int \<lfloor>q\<rfloor> + 1"
    by linarith+
  then show ?thesis
    by (auto simp add: round_even_def Let_def)
qed

lemma round_even_of_int [simp]: "round_even (of_int n) = n"
  by (simp add: round_even_def)

lemma max_float32_less: "max_float32 < 2 powi 128" "max_float32 + 1 < 2 powi 128 - 2 powi 103"
  "2 powi 127 \<le> max_float32"
  by (simp_all add: max_float32_def)

lemma round32_error:
  assumes "\<bar>r\<bar> < 2 powi 128 - 2 powi 103"
  shows "\<exists>n. round32 r = Finite (of_int n * 2 powi (exponent r - 23)) \<and> \<bar>n\<bar> \<le> 2 ^ 24
       \<and> \<bar>of_int n * 2 powi (exponent r - 23) - r\<bar> \<le> 2 powi (exponent r - 24)
       \<and> \<bar>of_int n * 2 powi (exponent r - 23)\<bar> \<le> max_float32"
proof -
  define e where "e = exponent r"
  define ulp where "ulp = (2::real) powi (e - 23)"
  define q where "q = r / ulp"
  define n where "n = round_even q"
  have ulp_pos: "0 < ulp"
    by (simp add: ulp_def)
  have e_range: "- 126 \<le> e" "e \<le> 127"
    by (simp_all add: e_def exponent_range)
  from assms have r128: "\<bar>r\<bar> < 2 powi 128"
    by simp
  have rlt: "\<bar>r\<bar> < 2 powi (e + 1)"
    unfolding e_def by (rule exponent_gt [OF r128])
  have top: "(2::real) powi (e + 1) = 16777216 * ulp"
    unfolding ulp_def by (rule pow2_shift)
  have half: "ulp / 2 = 2 powi (e - 24)"
    unfolding ulp_def by (simp add: pow2_shift(2))
  have r: "r = q * ulp"
    using ulp_pos by (simp add: q_def)
  from rlt top ulp_pos have qlt: "\<bar>q\<bar> < 16777216"
    by (simp add: q_def abs_divide pos_divide_less_eq abs_of_pos)
  have err: "\<bar>of_int n - q\<bar> \<le> 1 / 2"
    unfolding n_def by (rule round_even_error)
  from err qlt have "\<bar>real_of_int n\<bar> < 16777216 + 1 / 2"
    by linarith
  then have "real_of_int \<bar>n\<bar> < real_of_int 16777217"
    by simp
  then have "\<bar>n\<bar> < 16777217"
    by (simp only: of_int_less_iff)
  then have nle: "\<bar>n\<bar> \<le> 2 ^ 24"
    by simp
  have "of_int n * ulp - r = (of_int n - q) * ulp"
    by (simp add: r algebra_simps)
  then have "\<bar>of_int n * ulp - r\<bar> = \<bar>of_int n - q\<bar> * ulp"
    using ulp_pos by (simp add: abs_mult abs_of_pos)
  also from err ulp_pos have "\<dots> \<le> 1 / 2 * ulp"
    by (intro mult_right_mono) simp_all
  finally have werr: "\<bar>of_int n * ulp - r\<bar> \<le> 2 powi (e - 24)"
    by (simp add: half [symmetric])
  have wmax: "\<bar>of_int n * ulp\<bar> \<le> max_float32"
  proof (cases "e = 127")
    case True
    then have u: "ulp = 2 powi 104"
      by (simp add: ulp_def)
    from assms have "\<bar>r\<bar> / ulp < (2 powi 128 - 2 powi 103) / ulp"
      using ulp_pos by (simp add: divide_strict_right_mono)
    then have "\<bar>q\<bar> < 16777216 - 1 / 2"
      using ulp_pos by (simp add: q_def u abs_divide)
    with err have "\<bar>real_of_int n\<bar> < 16777216"
      by linarith
    then have "real_of_int \<bar>n\<bar> < real_of_int 16777216"
      by simp
    then have "\<bar>n\<bar> < 16777216"
      by (simp only: of_int_less_iff)
    then have "\<bar>n\<bar> \<le> 16777215"
      by simp
    then have "real_of_int \<bar>n\<bar> \<le> real_of_int 16777215"
      by (simp only: of_int_le_iff)
    then have "\<bar>real_of_int n\<bar> * ulp \<le> 16777215 * ulp"
      using ulp_pos by (intro mult_right_mono) simp_all
    then show ?thesis
      using ulp_pos by (simp add: abs_mult abs_of_pos u max_float32_def)
  next
    case False
    with e_range have "e + 1 \<le> 127"
      by simp
    then have "(2::real) powi (e + 1) \<le> 2 powi 127"
      by (rule pow2_mono)
    moreover from nle have "real_of_int \<bar>n\<bar> \<le> real_of_int 16777216"
      by (simp only: of_int_le_iff) simp
    then have "\<bar>real_of_int n\<bar> * ulp \<le> 16777216 * ulp"
      using ulp_pos by (intro mult_right_mono) simp_all
    ultimately have "\<bar>real_of_int n\<bar> * ulp \<le> 2 powi 127"
      using top by simp
    with max_float32_less(3) show ?thesis
      using ulp_pos by (simp add: abs_mult abs_of_pos)
  qed
  with max_float32_less(1) have "\<not> 2 powi 128 \<le> \<bar>of_int n * ulp\<bar>"
    by linarith
  then have "round32 r = Finite (of_int n * ulp)"
    by (simp add: round32_def Let_def n_def q_def ulp_def e_def)
  with nle werr wmax show ?thesis
    unfolding ulp_def e_def by blast
qed

lemma ulp_bound: "2 powi (exponent r - 24) \<le> max \<bar>r\<bar> (2 powi (- 126)) / 2 ^ 24"
proof -
  have d: "(2::real) powi (exponent r - 24) = 2 powi exponent r / 2 ^ 24"
    by (simp add: pow2_shift(4))
  have "2 powi exponent r \<le> max \<bar>r\<bar> (2 powi (- 126))"
  proof (cases "2 powi (- 126) \<le> \<bar>r\<bar>")
    case True
    from exponent_le [OF True] show ?thesis
      by simp
  next
    case False
    then have "exponent r = - 126"
      by (simp add: exponent_small)
    then show ?thesis
      by simp
  qed
  then show ?thesis
    unfolding d by (simp add: divide_right_mono)
qed

lemma round32_exact_strict:
  assumes "- 149 \<le> k" "k \<le> 104" "\<bar>n\<bar> < 2 ^ 24"
  shows "round32 (of_int n * 2 powi k) = Finite (of_int n * 2 powi k)"
proof -
  define r where "r = real_of_int n * 2 powi k"
  define e where "e = exponent r"
  from assms(3) have "real_of_int \<bar>n\<bar> < real_of_int (2 ^ 24)"
    by (simp only: of_int_less_iff)
  then have "\<bar>real_of_int n\<bar> * 2 powi k < 2 ^ 24 * 2 powi k"
    by (intro mult_strict_right_mono) simp_all
  also have "\<dots> = 2 powi (k + 23 + 1)"
    using pow2_shift(3) [of k] by (simp add: ac_simps)
  finally have rlt: "\<bar>r\<bar> < 2 powi (k + 23 + 1)"
    by (simp only: r_def abs_mult abs_of_pos [OF pow2_pos])
  from assms(1) have e: "e \<le> k + 23"
    unfolding e_def by (intro exponent_bound [OF rlt]) simp
  define d where "d = nat (k - (e - 23))"
  from e have "k = (e - 23) + int d"
    by (simp add: d_def)
  then have "(2::real) powi k = 2 powi (e - 23) * 2 powi (int d)"
    using pow2_add [of "e - 23" "int d"] by simp
  then have "r / 2 powi (e - 23) = real_of_int (n * 2 ^ d)"
    by (simp add: r_def power_int_def)
  then have "real_of_int (round_even (r / 2 powi (e - 23))) * 2 powi (e - 23) = r"
    by (simp only: round_even_of_int) (simp add: field_simps)
  moreover from assms(2) have "(2::real) powi (k + 23 + 1) \<le> 2 powi 128"
    by (intro pow2_mono) simp
  with rlt have "\<not> 2 powi 128 \<le> \<bar>r\<bar>"
    by linarith
  ultimately show ?thesis
    by (simp add: round32_def Let_def r_def [symmetric] e_def [symmetric])
qed

lemma round32_exact:
  assumes "- 149 \<le> k" "k \<le> 104" "\<bar>n\<bar> \<le> 2 ^ 24" "\<bar>real_of_int n * 2 powi k\<bar> < 2 powi 128"
  shows "round32 (of_int n * 2 powi k) = Finite (of_int n * 2 powi k)"
proof (cases "\<bar>n\<bar> < 2 ^ 24")
  case True
  with assms(1,2) show ?thesis
    by (rule round32_exact_strict)
next
  case False
  with assms(3) have n: "\<bar>n\<bar> = 2 ^ 24"
    by simp
  then have "\<bar>real_of_int n\<bar> = 2 ^ 24"
    by (metis of_int_abs of_int_numeral of_int_power)
  with assms(4) have "2 ^ 24 * 2 powi k < (2::real) powi 128"
    by (simp add: abs_mult)
  then have "(2::real) powi (k + 24) < 2 powi 128"
    by (simp add: pow2_shift(3))
  then have "k + 24 < 128"
    by (simp only: pow2_less_iff)
  then have k: "k + 1 \<le> 104"
    by simp
  from n have "n = 16777216 \<or> n = - 16777216"
    by (auto simp add: abs_if split: if_splits)
  then have m: "n = 2 * (n div 2)" "\<bar>n div 2\<bar> < 2 ^ 24"
    by auto
  have "real_of_int n * 2 powi k = real_of_int (n div 2) * 2 powi (k + 1)"
    by (subst m(1)) (simp add: pow2_shift(5))
  moreover from assms(1) k m(2)
  have "round32 (of_int (n div 2) * 2 powi (k + 1)) = Finite (of_int (n div 2) * 2 powi (k + 1))"
    by (intro round32_exact_strict) simp_all
  ultimately show ?thesis
    by simp
qed

lemma round32_near:
  assumes "\<bar>r\<bar> < 2 powi (k + 1)" "- 126 \<le> k" "k \<le> 126"
  shows "\<exists>w. round32 r = Finite w \<and> \<bar>w - r\<bar> \<le> 2 powi (k - 24)"
proof -
  from assms(3) have "(2::real) powi (k + 1) \<le> 2 powi 127"
    by (intro pow2_mono) simp
  with assms(1) have "\<bar>r\<bar> < 2 powi 128 - 2 powi 103"
    by simp
  from round32_error [OF this] obtain w where w: "round32 r = Finite w"
    and err: "\<bar>w - r\<bar> \<le> 2 powi (exponent r - 24)"
    by blast
  from exponent_bound [OF assms(1,2)] have "(2::real) powi (exponent r - 24) \<le> 2 powi (k - 24)"
    by (intro pow2_mono) simp
  with w err show ?thesis
    by auto
qed

lemma near_one:
  fixes a v V :: real
  assumes "\<bar>v\<bar> \<le> V" "\<bar>a - (v + 1)\<bar> \<le> (V + 1) / 16777216"
  shows "\<bar>a - 1\<bar> \<le> 2 * (V + 1)"
  using assms unfolding abs_le_iff by argo

lemma two_errors:
  fixes a v d :: real
  assumes "\<bar>a - (v + 1)\<bar> \<le> x" "\<bar>d - (a - 1)\<bar> \<le> y"
  shows "\<bar>d - v\<bar> \<le> x + y"
  using assms unfolding abs_le_iff by argo

lemma doubled:
  fixes a b :: real
  assumes "\<bar>a\<bar> \<le> u" "\<bar>b - a / 2\<bar> \<le> y"
  shows "\<bar>b * 2\<bar> \<le> u + 2 * y"
  using assms unfolding abs_le_iff by argo

lemma minus_one:
  fixes a b c :: real
  assumes "\<bar>a\<bar> \<le> u" "\<bar>b - a / 2\<bar> \<le> y" "\<bar>c - b * 2\<bar> \<le> z"
  shows "\<bar>c - 1\<bar> \<le> 1 + u + 2 * y + z"
  using assms unfolding abs_le_iff by argo

lemma four_errors:
  fixes a b c d v :: real
  assumes "\<bar>a - (v + 1)\<bar> \<le> x" "\<bar>b - a / 2\<bar> \<le> y" "\<bar>c - b * 2\<bar> \<le> z" "\<bar>d - (c - 1)\<bar> \<le> w"
  shows "\<bar>d - v\<bar> \<le> x + 2 * y + z + w"
  using assms unfolding abs_le_iff by argo

lemma round_trip_finite:
  assumes "\<bar>v\<bar> \<le> max_float32"
  shows "\<exists>w. sub32 (mul32 (div32 (add32 (Finite v) 1) 2) 2) 1 = Finite w
           \<and> \<bar>w - v\<bar> \<le> 3 * (\<bar>v\<bar> + 1) / 2 ^ 24"
proof -
  define e1 where "e1 = exponent (v + 1)"
  from assms max_float32_less(2) have t1: "\<bar>v + 1\<bar> < 2 powi 128 - 2 powi 103"
    by linarith
  from round32_error [OF t1] obtain n1 where
    r1: "round32 (v + 1) = Finite (of_int n1 * 2 powi (e1 - 23))" and n1: "\<bar>n1\<bar> \<le> 2 ^ 24"
    and err1: "\<bar>of_int n1 * 2 powi (e1 - 23) - (v + 1)\<bar> \<le> 2 powi (e1 - 24)"
    and max1: "\<bar>real_of_int n1 * 2 powi (e1 - 23)\<bar> \<le> max_float32"
    unfolding e1_def by blast
  define a where "a = real_of_int n1 * 2 powi (e1 - 23)"
  have e1r: "- 126 \<le> e1" "e1 \<le> 127"
    by (simp_all add: e1_def exponent_range)
  have s1: "add32 (Finite v) 1 = Finite a"
    by (simp add: add32_def r1 a_def)
  from max1 max_float32_less(1) have a128: "\<bar>a\<bar> < 2 powi 128"
    unfolding a_def by linarith
  show ?thesis
  proof (cases "- 125 \<le> e1")
    case True
    have half: "a / 2 = real_of_int n1 * 2 powi (e1 - 24)"
      by (simp add: a_def pow2_shift(2))
    from a128 have "\<bar>a / 2\<bar> < 2 powi 128"
      by simp
    then have "\<bar>real_of_int n1 * 2 powi (e1 - 24)\<bar> < 2 powi 128"
      by (simp only: half)
    with True e1r n1 have "round32 (real_of_int n1 * 2 powi (e1 - 24)) =
        Finite (real_of_int n1 * 2 powi (e1 - 24))"
      by (intro round32_exact) simp_all
    then have r2: "round32 (a / 2) = Finite (a / 2)"
      by (simp only: half)
    from a128 e1r n1 have "round32 (real_of_int n1 * 2 powi (e1 - 23)) =
        Finite (real_of_int n1 * 2 powi (e1 - 23))"
      unfolding a_def by (intro round32_exact) simp_all
    then have r3: "round32 a = Finite a"
      by (simp only: a_def)
    from max1 max_float32_less(2) have t4: "\<bar>a - 1\<bar> < 2 powi 128 - 2 powi 103"
      unfolding a_def by linarith
    from round32_error [OF t4] obtain d where r4: "round32 (a - 1) = Finite d"
      and err4: "\<bar>d - (a - 1)\<bar> \<le> 2 powi (exponent (a - 1) - 24)"
      by blast
    have s2: "div32 (Finite a) 2 = Finite (a / 2)"
      by (simp add: div32_def r2)
    have s3: "mul32 (Finite (a / 2)) 2 = Finite a"
      by (simp add: mul32_def r3)
    have s4: "sub32 (Finite a) 1 = Finite d"
      by (simp add: sub32_def r4)
    have res: "sub32 (mul32 (div32 (add32 (Finite v) 1) 2) 2) 1 = Finite d"
      by (simp only: s1 s2 s3 s4)
    from ulp_bound [of "v + 1"] have "2 powi (e1 - 24) \<le> max \<bar>v + 1\<bar> (2 powi (- 126)) / 16777216"
      by (simp add: e1_def)
    with err1 have b1: "\<bar>a - (v + 1)\<bar> \<le> max \<bar>v + 1\<bar> (2 powi (- 126)) / 16777216"
      unfolding a_def by (rule order_trans)
    from ulp_bound [of "a - 1"]
    have "2 powi (exponent (a - 1) - 24) \<le> max \<bar>a - 1\<bar> (2 powi (- 126)) / 16777216"
      by simp
    with err4 have b4: "\<bar>d - (a - 1)\<bar> \<le> max \<bar>a - 1\<bar> (2 powi (- 126)) / 16777216"
      by (rule order_trans)
    have small: "(2::real) powi (- 126) \<le> 1"
      by simp
    have "\<bar>v + 1\<bar> \<le> \<bar>v\<bar> + 1"
      by (rule abs_triangle_ineq [of v 1, simplified])
    moreover from small have "2 powi (- 126) \<le> \<bar>v\<bar> + 1"
      by (rule order_trans) simp
    ultimately have m1: "max \<bar>v + 1\<bar> (2 powi (- 126)) \<le> \<bar>v\<bar> + 1"
      by (rule max.boundedI)
    then have "max \<bar>v + 1\<bar> (2 powi (- 126)) / 16777216 \<le> (\<bar>v\<bar> + 1) / 16777216"
      by (rule divide_right_mono) simp
    with b1 have c1: "\<bar>a - (v + 1)\<bar> \<le> (\<bar>v\<bar> + 1) / 16777216"
      by (rule order_trans)
    from near_one [OF order_refl c1] have "\<bar>a - 1\<bar> \<le> 2 * (\<bar>v\<bar> + 1)" .
    moreover from small have "2 powi (- 126) \<le> 2 * (\<bar>v\<bar> + 1)"
      by (rule order_trans) simp
    ultimately have m4: "max \<bar>a - 1\<bar> (2 powi (- 126)) \<le> 2 * (\<bar>v\<bar> + 1)"
      by (rule max.boundedI)
    then have "max \<bar>a - 1\<bar> (2 powi (- 126)) / 16777216 \<le> 2 * (\<bar>v\<bar> + 1) / 16777216"
      by (rule divide_right_mono) simp
    with b4 have c4: "\<bar>d - (a - 1)\<bar> \<le> 2 * (\<bar>v\<bar> + 1) / 16777216"
      by (rule order_trans)
    have "(\<bar>v\<bar> + 1) / 16777216 + 2 * (\<bar>v\<bar> + 1) / 16777216 = 3 * (\<bar>v\<bar> + 1) / 16777216"
      by argo
    with two_errors [OF c1 c4] have "\<bar>d - v\<bar> \<le> 3 * (\<bar>v\<bar> + 1) / 16777216"
      by (simp only:)
    then have "\<bar>d - v\<bar> \<le> 3 * (\<bar>v\<bar> + 1) / 2 ^ 24"
      by simp
    with res show ?thesis
      by blast
  next
    case False
    with e1r have e1: "e1 = - 126"
      by simp
    from n1 have "real_of_int \<bar>n1\<bar> \<le> real_of_int (2 ^ 24)"
      by (simp only: of_int_le_iff)
    then have "\<bar>real_of_int n1\<bar> * 2 powi (- 149) \<le> 2 ^ 24 * 2 powi (- 149)"
      by (intro mult_right_mono) simp_all
    then have amax: "\<bar>a\<bar> \<le> 2 powi (- 125)"
      by (simp add: a_def e1 abs_mult)
    from err1 have c1: "\<bar>a - (v + 1)\<bar> \<le> 2 powi (- 150)"
      by (simp add: a_def e1)
    from amax have "\<bar>a / 2\<bar> < 2 powi (- 126 + 1)"
      by simp
    from round32_near [OF this] obtain b where r2: "round32 (a / 2) = Finite b"
      and c2: "\<bar>b - a / 2\<bar> \<le> 2 powi (- 150)"
      by auto
    have r3: "\<exists>c. round32 (b * 2) = Finite c \<and> \<bar>c - b * 2\<bar> \<le> 2 powi (- 149)"
    proof -
      from doubled [OF amax c2] have "\<bar>b * 2\<bar> < 2 powi (- 125 + 1)"
        by simp
      from round32_near [OF this] show ?thesis
        by simp
    qed
    then obtain c where r3: "round32 (b * 2) = Finite c"
      and c3: "\<bar>c - b * 2\<bar> \<le> 2 powi (- 149)"
      by auto
    have "\<exists>d. round32 (c - 1) = Finite d \<and> \<bar>d - (c - 1)\<bar> \<le> 2 powi (- 24)"
    proof -
      from minus_one [OF amax c2 c3] have "\<bar>c - 1\<bar> < 2 powi (0 + 1)"
        by simp
      from round32_near [OF this] show ?thesis
        by simp
    qed
    then obtain d where r4: "round32 (c - 1) = Finite d"
      and c4: "\<bar>d - (c - 1)\<bar> \<le> 2 powi (- 24)"
      by auto
    have res: "sub32 (mul32 (div32 (add32 (Finite v) 1) 2) 2) 1 = Finite d"
      by (simp add: s1 div32_def mul32_def sub32_def r2 r3 r4)
    from four_errors [OF c1 c2 c3 c4] have "\<bar>d - v\<bar> \<le> 3 / 2 ^ 24"
      by simp
    also have "\<dots> \<le> 3 * (\<bar>v\<bar> + 1) / 2 ^ 24"
      by simp
    finally show ?thesis
      using res by blast
  qed
qed

lemma round_trip_within:
  "in_range32 x \<Longrightarrow> within_tolerance x (sub32 (mul32 (div32 (add32 x 1) 2) 2) 1)"
proof (cases x)
  case (Finite v)
  assume "in_range32 x"
  with Finite have "\<bar>v\<bar> \<le> max_float32"
    by (simp add: in_range32_def)
  from round_trip_finite [OF this] Finite show ?thesis
    by (auto simp add: within_tolerance_def)
qed (simp_all add: within_tolerance_def add32_def div32_def mul32_def sub32_def)

lemma round32_values:
  "round32 0 = Finite 0" "round32 1 = Finite 1" "round32 2 = Finite 2"
  "round32 (- 1) = Finite (- 1)" "round32 (1 / 2) = Finite (1 / 2)"
  "round32 (1 / 4) = Finite (1 / 4)" "round32 (3 / 2) = Finite (3 / 2)"
  "round32 (3 / 4) = Finite (3 / 4)" "round32 (5 / 4) = Finite (5 / 4)"
  "round32 (5 / 8) = Finite (5 / 8)"
  using round32_exact [of 0 0] round32_exact [of 0 1] round32_exact [of 0 2]
    round32_exact [of 0 "- 1"] round32_exact [of "- 1" 1] round32_exact [of "- 2" 1]
    round32_exact [of "- 1" 3] round32_exact [of "- 2" 3] round32_exact [of "- 2" 5]
    round32_exact [of "- 3" 5]
  by simp_all

lemma round32_absorbed: "round32 (1073741825 / 1073741824) = Finite 1"
proof -
  have "exponent (1073741825 / 1073741824) = 0"
    by (rule exponent_eq) simp_all
  then show ?thesis
    by (simp add: round32_def round_even_def Let_def)
qed

subsection \<open>The three methods on a sample\<close>

lemma set_input_Inr:
  "unet_set_input inp s = Inr s' \<longleftrightarrow>
     (\<exists>i g p. inp ''img'' = Some (Tensor i) \<and> inp ''seg'' = Some (Tensor g)
        \<and> inp ''img_paths'' = Some p
        \<and> s' = s\<lparr>img := Some i, seg := Some (batch_map (\<lambda>x. div32 (add32 x 1) 2) g),
                 image_paths := Some p\<rparr>)"
  by (auto simp add: unet_set_input_def and_then_Inr attr_Inr getitem_def to_device_def Let_def
        split: option.splits item.splits)

lemma unet_forward_Inr:
  "unet_forward f s = Inr s' \<longleftrightarrow>
     (\<exists>i y. img s = Some i \<and> f i = Inr y \<and> s' = s\<lparr>net_output := Some y\<rparr>)"
  by (auto simp add: unet_forward_def and_then_Inr attr_Inr)

lemma compute_visuals_Inr:
  "unet_compute_visuals draw opt s = Inr s' \<longleftrightarrow>
     (\<exists>i g out. img s = Some i \<and> seg s = Some g \<and> net_output s = Some out
        \<and> 0 < batch_size opt
        \<and> draw mod batch_size opt < int (length i)
        \<and> draw mod batch_size opt < int (length g)
        \<and> draw mod batch_size opt < int (length out)
        \<and> s' = s\<lparr>input_image := Some [i ! nat (draw mod batch_size opt)],
                 true_seg := Some [sample_map (\<lambda>y. sub32 (mul32 y 2) 1)
                                    (g ! nat (draw mod batch_size opt))],
                 pred_seg := Some [sample_map (\<lambda>y. sub32 (mul32 y 2) 1)
                                    (out ! nat (draw mod batch_size opt))]\<rparr>)"
  by (auto simp add: unet_compute_visuals_def and_then_Inr attr_Inr index_Inr randint_Inr
        unsqueeze0_def Let_def)

lemma sample_map_related:
  assumes "\<And>x. R x (h x)"
  shows "list_all2 (list_all2 (list_all2 R)) m (sample_map h m)"
  using assms by (simp add: sample_map_def list_all2_map2 list_all2_same)

lemma sample_map_comp: "sample_map g (sample_map f m) = sample_map (\<lambda>x. g (f x)) m"
  by (simp add: sample_map_def comp_def)

lemmas eval32 =
  add32_def sub32_def mul32_def div32_def round32_values round32_absorbed batch_map_def
  sample_map_def

lemma set_input_sample0: "unet_set_input sample0 unet0 = Inr (unet1\<lparr>net_output := None\<rparr>)"
  by (simp add: unet_set_input_def sample0_def unet0_def unet1_def and_then_def attr_def
      getitem_def to_device_def Let_def eval32)

lemma forward_sample0: "unet_forward netUnet0 (unet1\<lparr>net_output := None\<rparr>) = Inr unet1"
  by (simp add: unet_forward_def netUnet0_def unet1_def and_then_def attr_def eval32)

lemma compute_visuals_sample0:
  "unet_compute_visuals 3 (opt0\<lparr>batch_size := 2\<rparr>) unet1 =
     Inr (unet1\<lparr>input_image := Some [[[[Finite 1, Finite 1]]]],
                true_seg := Some [[[[Finite (1 / 4), Finite 0]]]],
                pred_seg := Some [[[[Finite 1, Finite 1]]]]\<rparr>)"
  by (simp add: unet_compute_visuals_def opt0_def unet1_def and_then_def attr_def index_def
        randint_def unsqueeze0_def Let_def eval32)

subsection \<open>Round trip of the mask encoding\<close>

lemma round_trip_labels:
  "sub32 (mul32 (div32 (add32 (Finite (- 1)) 1) 2) 2) 1 = Finite (- 1)"
  "sub32 (mul32 (div32 (add32 (Finite 1) 1) 2) 2) 1 = Finite 1"
  by (simp_all add: eval32)

lemma compute_visuals_sample0_first:
  "unet_compute_visuals 0 opt0 unet1 =
     Inr (unet1\<lparr>input_image := Some [[[[Finite (1 / 2), Finite 0]]]],
                true_seg := Some [[[[Finite (- 1), Finite 1]]]],
                pred_seg := Some [[[[Finite (1 / 2), Finite 0]]]]\<rparr>)"
  by (simp add: unet_compute_visuals_def opt0_def unet1_def and_then_def attr_def index_def
        randint_def unsqueeze0_def Let_def eval32)

text \<open>
  C8. \<open>set_input\<close> stores the mask \<open>m\<close> of the sample as \<open>(m + 1) / 2\<close>, and
  \<open>compute_visuals\<close> maps the stored mask of the sample it picks by \<open>y * 2 - 1\<close>, both
  in binary32 arithmetic. The mask it exposes has the shape of the mask of that sample
  as it was loaded and reproduces it value for value within floating-point tolerance:
  for every binary32 value \<open>x\<close> of the loaded mask the exposed value differs from \<open>x\<close> by
  at most \<open>3 * (\<bar>x\<bar> + 1) / 2 ^ 24\<close>, and an infinity or NaN is exposed as it is. The two
  labels \<open>- 1\<close> and \<open>1\<close> are exposed unchanged. The round trip is not exact to the bit for
  every value: the sum \<open>x + 1\<close> is rounded, so that the loaded value \<open>2 ^ - 30\<close> is exposed
  as \<open>0\<close>.
\<close>

theorem mask_round_trip:
  assumes "unet_set_input inp s = Inr s1"
    and "unet_forward netUnet s1 = Inr s2"
    and "unet_compute_visuals draw opt s2 = Inr s3"
  shows "\<exists>m t. inp ''seg'' = Some (Tensor m)
           \<and> seg s2 = Some (batch_map (\<lambda>x. div32 (add32 x 1) 2) m)
           \<and> nat (draw mod batch_size opt) < length m
           \<and> true_seg s3 = Some (unsqueeze0 t)
           \<and> list_all2 (list_all2 (list_all2
                (\<lambda>x y. (in_range32 x \<longrightarrow> within_tolerance x y)
                     \<and> (x = Finite (- 1) \<or> x = Finite 1 \<longrightarrow> y = x))))
                (m ! nat (draw mod batch_size opt)) t"
proof -
  from assms(1) obtain i m p where inp: "inp ''seg'' = Some (Tensor m)"
    and s1: "s1 = s\<lparr>img := Some i, seg := Some (batch_map (\<lambda>x. div32 (add32 x 1) 2) m),
                 image_paths := Some p\<rparr>"
    by (auto simp add: set_input_Inr)
  from assms(2) s1 have seg2: "seg s2 = Some (batch_map (\<lambda>x. div32 (add32 x 1) 2) m)"
    by (auto simp add: unet_forward_Inr)
  let ?k = "nat (draw mod batch_size opt)"
  from assms(3) seg2 have k: "draw mod batch_size opt < int (length m)" "0 < batch_size opt"
    and t: "true_seg s3 =
      Some [sample_map (\<lambda>y. sub32 (mul32 y 2) 1) (batch_map (\<lambda>x. div32 (add32 x 1) 2) m ! ?k)]"
    by (auto simp add: compute_visuals_Inr batch_map_def)
  from k have lt: "?k < length m"
    by (simp add: nat_less_iff)
  let ?t = "sample_map (\<lambda>x. sub32 (mul32 (div32 (add32 x 1) 2) 2) 1) (m ! ?k)"
  from t lt have "true_seg s3 = Some (unsqueeze0 ?t)"
    by (simp add: batch_map_def sample_map_comp unsqueeze0_def)
  moreover have "list_all2 (list_all2 (list_all2
      (\<lambda>x y. (in_range32 x \<longrightarrow> within_tolerance x y)
           \<and> (x = Finite (- 1) \<or> x = Finite 1 \<longrightarrow> y = x))))
      (m ! ?k) ?t"
    by (rule sample_map_related) (auto simp add: round_trip_within round_trip_labels)
  ultimately show ?thesis
    using inp seg2 lt by blast
qed

theorem mask_round_trip_witness:
  "unet_set_input sample0 unet0 = Inr (unet1\<lparr>net_output := None\<rparr>)
   \<and> unet_forward netUnet0 (unet1\<lparr>net_output := None\<rparr>) = Inr unet1
   \<and> sample0 ''seg'' =
       Some (Tensor [[[[Finite (- 1), Finite 1]]], [[[Finite (1 / 4), Finite (1 / 2 ^ 30)]]]])
   \<and> unet_compute_visuals 0 opt0 unet1 =
       Inr (unet1\<lparr>input_image := Some [[[[Finite (1 / 2), Finite 0]]]],
                  true_seg := Some [[[[Finite (- 1), Finite 1]]]],
                  pred_seg := Some [[[[Finite (1 / 2), Finite 0]]]]\<rparr>)
   \<and> unet_compute_visuals 3 (opt0\<lparr>batch_size := 2\<rparr>) unet1 =
       Inr (unet1\<lparr>input_image := Some [[[[Finite 1, Finite 1]]]],
                  true_seg := Some [[[[Finite (1 / 4), Finite 0]]]],
                  pred_seg := Some [[[[Finite 1, Finite 1]]]]\<rparr>)
   \<and> in_range32 (Finite (1 / 4)) \<and> in_range32 (Finite (1 / 2 ^ 30))
   \<and> list_all2 (list_all2 (list_all2 within_tolerance))
        [[[Finite (1 / 4), Finite (1 / 2 ^ 30)]]] [[[Finite (1 / 4), Finite 0]]]"
proof -
  from mask_round_trip [OF set_input_sample0 forward_sample0 compute_visuals_sample0]
  have "list_all2 (list_all2 (list_all2
      (\<lambda>x y. (in_range32 x \<longrightarrow> within_tolerance x y)
           \<and> (x = Finite (- 1) \<or> x = Finite 1 \<longrightarrow> y = x))))
      [[[Finite (1 / 4), Finite (1 / 2 ^ 30)]]] [[[Finite (1 / 4), Finite 0]]]"
    by (simp add: sample0_def unsqueeze0_def)
  moreover have "in_range32 (Finite (1 / 4))" "in_range32 (Finite (1 / 2 ^ 30))"
    by (simp_all add: in_range32_def max_float32_def)
  ultimately show ?thesis
    using set_input_sample0 forward_sample0 compute_visuals_sample0
      compute_visuals_sample0_first
    by (simp add: sample0_def)
qed

subsection \<open>What compute_visuals exposes\<close>

text \<open>
  C9, as stated, says that the input image is rescaled like the two masks. The image is
  exposed as it is: for the pixel value 1/2 the rescaling \<open>y * 2 - 1\<close> would give 0.
\<close>

theorem compute_visuals_image_counterexample:
  "unet_compute_visuals 0 opt0 unet1 =
     Inr (unet1\<lparr>input_image := Some [[[[Finite (1 / 2), Finite 0]]]],
                true_seg := Some [[[[Finite (- 1), Finite 1]]]],
                pred_seg := Some [[[[Finite (1 / 2), Finite 0]]]]\<rparr>)
   \<and> Some [[[[Finite (1 / 2), Finite 0]]]] \<noteq>
       Some (unsqueeze0 (sample_map (\<lambda>y. sub32 (mul32 y 2) 1) [[[Finite (1 / 2), Finite 0]]]))"
  by (simp add: compute_visuals_sample0_first unsqueeze0_def eval32)

text \<open>
  C9, amended. \<open>compute_visuals\<close> succeeds exactly when the image, the mask and the
  prediction are present and the index drawn, one of \<open>0 .. opt.batch_size - 1\<close>, lies
  inside all three batches. The model then holds the input image of that sample unchanged
  and the mask and the prediction of that sample mapped by \<open>y * 2 - 1\<close>, each as a batch
  of one; nothing else changes.
\<close>

theorem compute_visuals_exposes:
  "unet_compute_visuals draw opt s = Inr s' \<longleftrightarrow>
     (\<exists>idx i g out. img s = Some i \<and> seg s = Some g \<and> net_output s = Some out
        \<and> idx = nat (draw mod batch_size opt)
        \<and> int idx < batch_size opt
        \<and> idx < length i \<and> idx < length g \<and> idx < length out
        \<and> s' = s\<lparr>input_image := Some (unsqueeze0 (i ! idx)),
                 true_seg := Some (unsqueeze0 (sample_map (\<lambda>y. sub32 (mul32 y 2) 1) (g ! idx))),
                 pred_seg := Some (unsqueeze0 (sample_map (\<lambda>y. sub32 (mul32 y 2) 1) (out ! idx)))\<rparr>)"
proof (cases "0 < batch_size opt")
  case True
  then have nonneg: "0 \<le> draw mod batch_size opt" and below: "draw mod batch_size opt < batch_size opt"
    by simp_all
  from nonneg have lt: "nat (draw mod batch_size opt) < length xs \<longleftrightarrow>
      draw mod batch_size opt < int (length xs)" for xs :: batch32
    by (simp add: nat_less_iff)
  from True nonneg below show ?thesis
    unfolding compute_visuals_Inr unsqueeze0_def
    by (auto simp add: lt)
next
  case False
  then have "\<not> int (nat (draw mod batch_size opt)) < batch_size opt"
    by simp
  with False show ?thesis
    unfolding compute_visuals_Inr
    by simp
qed

theorem compute_visuals_exposes_witness:
  "unet_compute_visuals 3 (opt0\<lparr>batch_size := 2\<rparr>) unet1 =
     Inr (unet1\<lparr>input_image := Some (unsqueeze0 [[[Finite 1, Finite 1]]]),
                true_seg := Some (unsqueeze0 (sample_map (\<lambda>y. sub32 (mul32 y 2) 1)
                                    [[[Finite (5 / 8), Finite (1 / 2)]]])),
                pred_seg := Some (unsqueeze0 (sample_map (\<lambda>y. sub32 (mul32 y 2) 1)
                                    [[[Finite 1, Finite 1]]]))\<rparr>)"
  using compute_visuals_exposes [of 3 "opt0\<lparr>batch_size := 2\<rparr>" unet1
      "unet1\<lparr>input_image := Some (unsqueeze0 [[[Finite 1, Finite 1]]]),
             true_seg := Some (unsqueeze0 (sample_map (\<lambda>y. sub32 (mul32 y 2) 1)
                                 [[[Finite (5 / 8), Finite (1 / 2)]]])),
             pred_seg := Some (unsqueeze0 (sample_map (\<lambda>y. sub32 (mul32 y 2) 1)
                                 [[[Finite 1, Finite 1]]]))\<rparr>"]
  by (simp add: opt0_def unet1_def)

section \<open>Properties of PerceptualCycleGANModel\<close>

subsection \<open>Results of the steps\<close>

lemma and_then_attr:
  "and_then (attr name v) f = Inr r \<longleftrightarrow> (\<exists>x. v = Some x \<and> f x = Inr r)"
  by (auto simp add: and_then_Inr attr_Inr)

lemma net_value_upd [simp]:
  "net_value env (s\<lparr>trace := tr\<rparr>) = net_value env s"
  "net_value env (s\<lparr>grad := g\<rparr>) = net_value env s"
  "net_value env (s\<lparr>fake_A := t\<rparr>) = net_value env s"
  "net_value env (s\<lparr>fake_B := t\<rparr>) = net_value env s"
  "net_value env (s\<lparr>rec_A := t\<rparr>) = net_value env s"
  "net_value env (s\<lparr>rec_B := t\<rparr>) = net_value env s"
  "net_value env (s\<lparr>idt_A := t\<rparr>) = net_value env s"
  "net_value env (s\<lparr>idt_B := t\<rparr>) = net_value env s"
  "net_value env (s\<lparr>loss_idt_A := l\<rparr>) = net_value env s"
  "net_value env (s\<lparr>loss_idt_B := l\<rparr>) = net_value env s"
  "net_value env (s\<lparr>loss_G_A := l\<rparr>) = net_value env s"
  "net_value env (s\<lparr>loss_G_B := l\<rparr>) = net_value env s"
  "net_value env (s\<lparr>loss_cycle_A := l\<rparr>) = net_value env s"
  "net_value env (s\<lparr>loss_cycle_B := l\<rparr>) = net_value env s"
  "net_value env (s\<lparr>loss_G := l\<rparr>) = net_value env s"
  "net_value env (s\<lparr>loss_D_A := l\<rparr>) = net_value env s"
  "net_value env (s\<lparr>loss_D_B := l\<rparr>) = net_value env s"
  "net_value env (s\<lparr>fake_A_pool := p\<rparr>) = net_value env s"
  "net_value env (s\<lparr>fake_B_pool := p\<rparr>) = net_value env s"
  by (simp_all add: net_value_def fun_eq_iff)

lemma and_then_call_net:
  "and_then (call_net env n x s) f = Inr r \<longleftrightarrow>
     (\<exists>y. net_value env s n x = Inr y
        \<and> f (y, s\<lparr>trace := trace s @ [Call n (data x) (grad_enabled s)]\<rparr>) = Inr r)"
  by (auto simp add: and_then_Inr call_net_def)

lemma and_then_net_on_cat:
  "and_then (net_on_cat env n pname p qname q s) f = Inr r \<longleftrightarrow>
     (\<exists>x a i y. p s = Some x \<and> q s = Some a \<and> cat1 (grad_enabled s) x a = Inr i
        \<and> net_value env s n i = Inr y
        \<and> f (y, s\<lparr>trace := trace s @ [Call n (data i) (grad_enabled s)]\<rparr>) = Inr r)"
  by (auto simp add: net_on_cat_def and_then_Inr attr_Inr call_net_def)

lemma and_then_L1Loss:
  "and_then (L1Loss m x y) f = Inr r \<longleftrightarrow>
     dims (data x) = dims (data y) \<and> flatten (data x) \<noteq> []
     \<and> f (result m (mean_abs_diff (data x) (data y)) (grad_fn x \<union> grad_fn y)) = Inr r"
  by (auto simp add: L1Loss_def and_then_def)

lemma backward_Inr:
  "backward env l s = Inr s' \<longleftrightarrow>
     grad_fn l \<noteq> {}
     \<and> s' = s\<lparr>grad := (\<lambda>n. if n \<in> grad_fn l
                               then Some (accumulate (grad s n) (autograd env l n s))
                               else grad s n)\<rparr>"
  by (auto simp add: backward_def)

lemma forward_steps:
  "forward env s = Inr s' \<longleftrightarrow>
     (\<exists>a xa i1 fb. real_A s = Some a \<and> aux_A s = Some xa
        \<and> cat1 (grad_enabled s) a xa = Inr i1 \<and> net_value env s G_A i1 = Inr fb
        \<and> (\<exists>i2 ra. cat1 (grad_enabled s) fb xa = Inr i2 \<and> net_value env s G_B i2 = Inr ra
        \<and> (\<exists>b xb i3 fa. real_B s = Some b \<and> aux_B s = Some xb
              \<and> cat1 (grad_enabled s) b xb = Inr i3 \<and> net_value env s G_B i3 = Inr fa
        \<and> (\<exists>i4 rb. cat1 (grad_enabled s) fa xb = Inr i4 \<and> net_value env s G_A i4 = Inr rb
        \<and> s' = s\<lparr>fake_B := Some fb, rec_A := Some ra, fake_A := Some fa, rec_B := Some rb,
                 trace := trace s @ [Call G_A (data i1) (grad_enabled s),
                                     Call G_B (data i2) (grad_enabled s),
                                     Call G_B (data i3) (grad_enabled s),
                                     Call G_A (data i4) (grad_enabled s)]\<rparr>))))"
  apply (simp add: forward_def and_then_net_on_cat Let_def)
  apply (rule iffI)
   apply clarsimp
  apply clarsimp
  done

lemma identity_losses_Inr:
  "identity_losses env opt s = Inr s' \<longleftrightarrow>
     (if lambda_identity opt > 0 then
        (\<exists>b xb i ia. real_B s = Some b \<and> aux_B s = Some xb
           \<and> cat1 (grad_enabled s) b xb = Inr i \<and> net_value env s G_A i = Inr ia
           \<and> dims (data ia) = dims (data b) \<and> flatten (data ia) \<noteq> []
        \<and> (\<exists>a xa j ib. real_A s = Some a \<and> aux_A s = Some xa
           \<and> cat1 (grad_enabled s) a xa = Inr j \<and> net_value env s G_B j = Inr ib
           \<and> dims (data ib) = dims (data a) \<and> flatten (data ib) \<noteq> []
        \<and> s' = s\<lparr>idt_A := Some ia, idt_B := Some ib,
                 loss_idt_A := Some (mul (grad_enabled s)
                    (mul (grad_enabled s)
                       (result (grad_enabled s) (mean_abs_diff (data ia) (data b))
                          (grad_fn ia \<union> grad_fn b))
                       (lambda_B opt))
                    (lambda_identity opt)),
                 loss_idt_B := Some (mul (grad_enabled s)
                    (mul (grad_enabled s)
                       (result (grad_enabled s) (mean_abs_diff (data ib) (data a))
                          (grad_fn ib \<union> grad_fn a))
                       (lambda_A opt))
                    (lambda_identity opt)),
                 trace := trace s @ [Call G_A (data i) (grad_enabled s),
                                     Call G_B (data j) (grad_enabled s)]\<rparr>))
      else s' = s\<lparr>loss_idt_A := Some py_zero, loss_idt_B := Some py_zero\<rparr>)"
  apply (simp add: identity_losses_def and_then_net_on_cat and_then_attr and_then_L1Loss Let_def)
  apply (intro conjI impI iffI; clarsimp)
  done

lemma adversarial_cycle_losses_Inr:
  "adversarial_cycle_losses env opt s = Inr s' \<longleftrightarrow>
     (\<exists>fb pa. fake_B s = Some fb \<and> net_value env s D_A fb = Inr pa
      \<and> (\<exists>fa pb. fake_A s = Some fa \<and> net_value env s D_B fa = Inr pb
      \<and> (\<exists>ra a. rec_A s = Some ra \<and> real_A s = Some a
           \<and> dims (data ra) = dims (data a) \<and> flatten (data ra) \<noteq> []
      \<and> (\<exists>rb b. rec_B s = Some rb \<and> real_B s = Some b
           \<and> dims (data rb) = dims (data b) \<and> flatten (data rb) \<noteq> []
      \<and> s' = s\<lparr>loss_G_A := Some (gan_loss env (grad_enabled s) pa True),
               loss_G_B := Some (gan_loss env (grad_enabled s) pb True),
               loss_cycle_A := Some (mul (grad_enabled s)
                  (result (grad_enabled s) (mean_abs_diff (data ra) (data a))
                     (grad_fn ra \<union> grad_fn a))
                  (lambda_A opt)),
               loss_cycle_B := Some (mul (grad_enabled s)
                  (result (grad_enabled s) (mean_abs_diff (data rb) (data b))
                     (grad_fn rb \<union> grad_fn b))
                  (lambda_B opt)),
               trace := trace s @ [Call D_A (data fb) (grad_enabled s),
                                   Call D_B (data fa) (grad_enabled s)]\<rparr>))))"
  apply (simp add: adversarial_cycle_losses_def and_then_call_net and_then_attr and_then_L1Loss
      Let_def)
  apply (rule iffI)
   apply clarsimp
  apply clarsimp
  done

lemma total_loss_Inr:
  "total_loss env s = Inr s' \<longleftrightarrow>
     (\<exists>ga gb ca cb ia ib. loss_G_A s = Some ga \<and> loss_G_B s = Some gb
        \<and> loss_cycle_A s = Some ca \<and> loss_cycle_B s = Some cb
        \<and> loss_idt_A s = Some ia \<and> loss_idt_B s = Some ib
        \<and> backward env
             (add (grad_enabled s) (add (grad_enabled s) (add (grad_enabled s)
                (add (grad_enabled s) (add (grad_enabled s) ga gb) ca) cb) ia) ib)
             (s\<lparr>loss_G := Some
                (add (grad_enabled s) (add (grad_enabled s) (add (grad_enabled s)
                   (add (grad_enabled s) (add (grad_enabled s) ga gb) ca) cb) ia) ib)\<rparr>) = Inr s')"
  apply (simp add: total_loss_def and_then_attr Let_def)
  done

lemma forward_gan0: "forward env0 gan0 = Inr gan1"
  by (simp add: forward_def net_on_cat_def call_net_def net_value_def cat1_def dims_def
      result_def attr_def and_then_def env0_def gan0_def gan1_def leaf_def batch_map_def
      sample_map_def Let_def insert_commute)

lemmas eval_defs =
  forward_def net_on_cat_def call_net_def net_value_def cat1_def cat0_def dims_def
  result_def attr_def and_then_def env0_def gan0_def gan1_def leaf_def batch_map_def
  sample_map_def Let_def identity_losses_def adversarial_cycle_losses_def total_loss_def
  backward_G_def L1Loss_def mean_abs_diff_def flatten_def mul_def add_def gan_loss_def
  backward_def accumulate_def opt0_def py_zero_def after_def

lemma and_then_Inr_simp: "and_then (Inr x) f = f x"
  by (simp add: and_then_def)

lemma attr_Some: "attr name (Some x) = Inr x"
  by (simp add: attr_def)

lemma env0_fields:
  "net_fwd env0 = (\<lambda>n w x. Inr (batch_map (\<lambda>v. v + sum_list w) (map (take 1) x)))"
  "criterionGAN env0 = (\<lambda>p target. mean_abs_diff (batch_map (\<lambda>v. v * v)
      (batch_map (\<lambda>v. v - (if target then 1 else 0)) p)) (batch_map (\<lambda>v. 0) p))"
  "autograd env0 = (\<lambda>l n s. [data l])"
  by (simp_all add: env0_def)

lemma gan1_fields:
  "real_A gan1 = Some \<lparr>data = [[[[1]]]], grad_fn = {}\<rparr>"
  "real_B gan1 = Some \<lparr>data = [[[[2]]]], grad_fn = {}\<rparr>"
  "aux_A gan1 = Some \<lparr>data = [[[[0]]]], grad_fn = {}\<rparr>"
  "aux_B gan1 = Some \<lparr>data = [[[[0]]]], grad_fn = {}\<rparr>"
  "fake_B gan1 = Some \<lparr>data = [[[[2]]]], grad_fn = {G_A}\<rparr>"
  "rec_A gan1 = Some \<lparr>data = [[[[3 / 2]]]], grad_fn = {G_A, G_B}\<rparr>"
  "fake_A gan1 = Some \<lparr>data = [[[[3 / 2]]]], grad_fn = {G_B}\<rparr>"
  "rec_B gan1 = Some \<lparr>data = [[[[5 / 2]]]], grad_fn = {G_A, G_B}\<rparr>"
  "weights gan1 G_A = [1]" "weights gan1 G_B = [- (1 / 2)]"
  "weights gan1 D_A = [0]" "weights gan1 D_B = [0]"
  "grad gan1 = (\<lambda>n. None)" "requires_grad gan1 = (\<lambda>n. True)" "grad_enabled gan1 = True"
  by (simp_all add: gan1_def gan0_def leaf_def)

lemmas gan1_eval =
  net_on_cat_def call_net_def net_value_def cat1_def dims_def result_def attr_Some
  and_then_Inr_simp batch_map_def sample_map_def Let_def identity_losses_def
  adversarial_cycle_losses_def total_loss_def backward_G_def L1Loss_def mean_abs_diff_def
  flatten_def mul_def add_def gan_loss_def backward_def accumulate_def opt0_def env0_fields
  gan1_fields py_zero_def after_def

lemma data_result [simp]:
  "data (result m v h) = v"
  "data (add m x y) = data x + data y"
  "data (mul m x c) = data x * c"
  "data (gan_loss env m p t) = criterionGAN env (data p) t"
  by (simp_all add: result_def add_def mul_def gan_loss_def)

lemma net_value_data:
  "net_value env s n x = Inr y \<Longrightarrow> net_fwd env n (weights s n) (data x) = Inr (data y)"
  by (auto simp add: net_value_def and_then_Inr)

lemma cat1_data: "cat1 m x y = Inr i \<Longrightarrow> data i = map2 (@) (data x) (data y)"
  by (auto simp add: cat1_def split: if_splits)

lemma backward_G_parts:
  "backward_G env opt s = Inr s' \<longleftrightarrow>
     (\<exists>s1 s2. identity_losses env opt s = Inr s1
        \<and> adversarial_cycle_losses env opt s1 = Inr s2 \<and> total_loss env s2 = Inr s')"
  by (auto simp add: backward_G_def and_then_Inr)

subsection \<open>The total generator loss\<close>

text \<open>
  C2, as stated, weights each identity loss by \<open>lambda_identity\<close> alone. The code
  multiplies the identity loss of \<open>G_A\<close> by \<open>lambda_B * lambda_identity\<close> and that of
  \<open>G_B\<close> by \<open>lambda_A * lambda_identity\<close>, as the docstring of
  \<open>modify_commandline_options\<close> says. On \<open>gan1\<close> with \<open>lambda_A = lambda_B = 10\<close> and
  \<open>lambda_identity = 1/2\<close> the total is 75/4, while the sum the claim describes is 12.
\<close>

theorem generator_loss_counterexample:
  "after (backward_G env0 opt0 gan1) (\<lambda>s. map_option data (loss_G s)) = Some (75 / 4)
   \<and> (75 / 4 :: real) \<noteq>
       criterionGAN env0 [[[[2]]]] True + criterionGAN env0 [[[[3 / 2]]]] True
       + mean_abs_diff [[[[3 / 2]]]] [[[[1]]]] * lambda_A opt0
       + mean_abs_diff [[[[5 / 2]]]] [[[[2]]]] * lambda_B opt0
       + mean_abs_diff [[[[3]]]] [[[[2]]]] * lambda_identity opt0
       + mean_abs_diff [[[[1 / 2]]]] [[[[1]]]] * lambda_identity opt0"
  by (simp add: gan1_eval)

text \<open>
  C2, amended. After \<open>backward_G\<close> the total generator loss is the unweighted sum of six
  terms: the adversarial loss of each generator (the criterion on the discriminator's
  prediction for the fake, against the label True), the forward cycle loss (the mean
  absolute difference of \<open>rec_A\<close> and \<open>real_A\<close>) times \<open>lambda_A\<close>, the backward cycle
  loss times \<open>lambda_B\<close>, and the two identity terms. When \<open>lambda_identity > 0\<close>,
  \<open>idt_A\<close> is the value of \<open>G_A\<close> on \<open>real_B\<close> concatenated with \<open>aux_B\<close> along the
  channel dimension and \<open>idt_B\<close> the value of \<open>G_B\<close> on \<open>real_A\<close> concatenated with
  \<open>aux_A\<close>, both with the parameters the generators have on entry, and the identity
  terms are the mean absolute difference of \<open>idt_A\<close> and \<open>real_B\<close> times
  \<open>lambda_B * lambda_identity\<close> and that of \<open>idt_B\<close> and \<open>real_A\<close> times
  \<open>lambda_A * lambda_identity\<close>; otherwise both are zero.
\<close>

theorem generator_loss_sum:
  assumes "backward_G env opt s = Inr s'"
  shows "\<exists>ga gb ca cb ia ib l fb pa fa pb ra a rb b.
      loss_G_A s' = Some ga \<and> loss_G_B s' = Some gb
    \<and> loss_cycle_A s' = Some ca \<and> loss_cycle_B s' = Some cb
    \<and> loss_idt_A s' = Some ia \<and> loss_idt_B s' = Some ib \<and> loss_G s' = Some l
    \<and> data l = data ga + data gb + data ca + data cb + data ia + data ib
    \<and> fake_B s = Some fb \<and> net_fwd env D_A (weights s D_A) (data fb) = Inr pa
    \<and> data ga = criterionGAN env pa True
    \<and> fake_A s = Some fa \<and> net_fwd env D_B (weights s D_B) (data fa) = Inr pb
    \<and> data gb = criterionGAN env pb True
    \<and> rec_A s = Some ra \<and> real_A s = Some a
    \<and> data ca = mean_abs_diff (data ra) (data a) * lambda_A opt
    \<and> rec_B s = Some rb \<and> real_B s = Some b
    \<and> data cb = mean_abs_diff (data rb) (data b) * lambda_B opt
    \<and> (if lambda_identity opt > 0
        then \<exists>xa xb ta tb. aux_A s = Some xa \<and> aux_B s = Some xb
           \<and> idt_A s' = Some ta
           \<and> net_fwd env G_A (weights s G_A) (map2 (@) (data b) (data xb)) = Inr (data ta)
           \<and> idt_B s' = Some tb
           \<and> net_fwd env G_B (weights s G_B) (map2 (@) (data a) (data xa)) = Inr (data tb)
           \<and> data ia = mean_abs_diff (data ta) (data b) * lambda_B opt * lambda_identity opt
           \<and> data ib = mean_abs_diff (data tb) (data a) * lambda_A opt * lambda_identity opt
        else data ia = 0 \<and> data ib = 0)"
proof -
  from assms obtain s1 s2 where 1: "identity_losses env opt s = Inr s1"
    and 2: "adversarial_cycle_losses env opt s1 = Inr s2" and 3: "total_loss env s2 = Inr s'"
    by (auto simp add: backward_G_parts)
  show ?thesis
  proof (cases "0 < lambda_identity opt")
    case True
    with 1 obtain b xb i ta a xa j tb where
      in1: "real_B s = Some b" "aux_B s = Some xb" "real_A s = Some a" "aux_A s = Some xa"
      and c: "cat1 (grad_enabled s) b xb = Inr i" "cat1 (grad_enabled s) a xa = Inr j"
      and n: "net_value env s G_A i = Inr ta" "net_value env s G_B j = Inr tb"
      and t: "idt_A s1 = Some ta" "idt_B s1 = Some tb"
      by (auto simp add: identity_losses_Inr)
    from c n have f: "net_fwd env G_A (weights s G_A) (map2 (@) (data b) (data xb)) = Inr (data ta)"
      "net_fwd env G_B (weights s G_B) (map2 (@) (data a) (data xa)) = Inr (data tb)"
      using net_value_data [OF n(1)] net_value_data [OF n(2)] cat1_data [OF c(1)] cat1_data [OF c(2)]
      by simp_all
    from 2 3 t have t': "idt_A s' = Some ta" "idt_B s' = Some tb"
      by (auto simp add: adversarial_cycle_losses_Inr total_loss_Inr backward_Inr)
    from True 1 2 3 in1 f t' show ?thesis
      by (clarsimp simp add: identity_losses_Inr adversarial_cycle_losses_Inr total_loss_Inr
          backward_Inr net_value_data)
  next
    case False
    with 1 2 3 show ?thesis
      by (clarsimp simp add: identity_losses_Inr adversarial_cycle_losses_Inr total_loss_Inr
          backward_Inr net_value_data py_zero_def)
  qed
qed

lemma backward_G_gan1:
  "\<exists>s'. backward_G env0 opt0 gan1 = Inr s' \<and> map_option data (loss_G s') = Some (75 / 4)"
  by (simp add: gan1_eval)

theorem generator_loss_sum_witness:
  "\<exists>s'. backward_G env0 opt0 gan1 = Inr s' \<and> map_option data (loss_G s') = Some (75 / 4)
     \<and> (\<exists>ia ib. loss_idt_A s' = Some ia \<and> loss_idt_B s' = Some ib)"
proof -
  from backward_G_gan1 obtain s' where r: "backward_G env0 opt0 gan1 = Inr s'"
    and v: "map_option data (loss_G s') = Some (75 / 4)"
    by blast
  from generator_loss_sum [OF r] have "\<exists>ia ib. loss_idt_A s' = Some ia \<and> loss_idt_B s' = Some ib"
    by blast
  with r v show ?thesis
    by blast
qed

subsection \<open>The identity branch switched off\<close>

text \<open>
  C5. With \<open>lambda_identity = 0\<close>, after \<open>backward_G\<close> both \<open>loss_idt_A\<close> and
  \<open>loss_idt_B\<close> are the Python integer 0 (value zero, no autograd history), and the
  total generator loss is the sum of the two adversarial and the two cycle losses alone.
\<close>

theorem identity_off:
  assumes "lambda_identity opt = 0" and "backward_G env opt s = Inr s'"
  shows "loss_idt_A s' = Some py_zero \<and> loss_idt_B s' = Some py_zero \<and> data py_zero = 0
    \<and> (\<exists>ga gb ca cb l. loss_G_A s' = Some ga \<and> loss_G_B s' = Some gb
          \<and> loss_cycle_A s' = Some ca \<and> loss_cycle_B s' = Some cb \<and> loss_G s' = Some l
          \<and> data l = data ga + data gb + data ca + data cb)"
proof -
  from assms(2) obtain s1 s2 where 1: "identity_losses env opt s = Inr s1"
    and 2: "adversarial_cycle_losses env opt s1 = Inr s2" and 3: "total_loss env s2 = Inr s'"
    by (auto simp add: backward_G_parts)
  with assms(1) show ?thesis
    by (clarsimp simp add: identity_losses_Inr adversarial_cycle_losses_Inr total_loss_Inr
        backward_Inr py_zero_def)
qed

lemma backward_G_gan1_identity_off:
  "\<exists>s'. backward_G env0 (opt0\<lparr>lambda_identity := 0\<rparr>) gan1 = Inr s'
      \<and> map_option data (loss_G s') = Some (45 / 4)"
  by (simp add: gan1_eval)

theorem identity_off_witness:
  "lambda_identity (opt0\<lparr>lambda_identity := 0\<rparr>) = 0
   \<and> (\<exists>s'. backward_G env0 (opt0\<lparr>lambda_identity := 0\<rparr>) gan1 = Inr s'
          \<and> loss_idt_A s' = Some py_zero \<and> loss_idt_B s' = Some py_zero
          \<and> map_option data (loss_G s') = Some (45 / 4))"
proof -
  have z: "lambda_identity (opt0\<lparr>lambda_identity := 0\<rparr>) = 0"
    by simp
  from backward_G_gan1_identity_off obtain s'
    where r: "backward_G env0 (opt0\<lparr>lambda_identity := 0\<rparr>) gan1 = Inr s'"
      and v: "map_option data (loss_G s') = Some (45 / 4)"
    by blast
  from identity_off [OF z r] have "loss_idt_A s' = Some py_zero \<and> loss_idt_B s' = Some py_zero"
    by blast
  with z r v show ?thesis
    by blast
qed

subsection \<open>The discriminator losses\<close>

lemma detach_simps [simp]: "data (detach x) = data x" "grad_fn (detach x) = {}"
  by (simp_all add: detach_def)

lemma grad_fn_result:
  "grad_fn (result m v h) = (if m then h else {})"
  "grad_fn (add m x y) = (if m then grad_fn x \<union> grad_fn y else {})"
  "grad_fn (mul m x c) = (if m then grad_fn x else {})"
  "grad_fn (gan_loss env m p t) = (if m then grad_fn p else {})"
  by (simp_all add: result_def add_def mul_def gan_loss_def)

lemma net_value_grad_fn:
  "net_value env s n x = Inr y \<Longrightarrow> grad_fn y \<subseteq> grad_fn x \<union> {n}"
  by (auto simp add: net_value_def and_then_Inr result_def split: if_splits)

lemma and_then_backward:
  "and_then (backward env l s) f = Inr r \<longleftrightarrow> (\<exists>s'. backward env l s = Inr s' \<and> f s' = Inr r)"
  by (rule and_then_Inr)

lemma and_then_backward_D_basic:
  "and_then (backward_D_basic env n x y s) f = Inr r \<longleftrightarrow>
     (\<exists>l s'. backward_D_basic env n x y s = Inr (l, s') \<and> f (l, s') = Inr r)"
  by (simp add: and_then_Inr)

lemma backward_D_basic_Inr:
  "backward_D_basic env netD real_t fake s = Inr (l, s') \<longleftrightarrow>
     (\<exists>pr pf. net_value env s netD real_t = Inr pr
        \<and> net_value env s netD (detach fake) = Inr pf
        \<and> l = mul (grad_enabled s)
                 (add (grad_enabled s) (gan_loss env (grad_enabled s) pr True)
                    (gan_loss env (grad_enabled s) pf False)) 0.5
        \<and> backward env l
             (s\<lparr>trace := trace s @ [Call netD (data real_t) (grad_enabled s),
                                    Call netD (data fake) (grad_enabled s)]\<rparr>) = Inr s')"
  apply (simp add: backward_D_basic_def and_then_call_net Let_def and_then_backward)
  apply (intro iffI; clarsimp)
  done

lemma backward_D_basic_props:
  assumes "backward_D_basic env netD real_t fake s = Inr (loss_D, s')"
  shows "\<exists>pred_real pred_fake.
      net_value env s netD real_t = Inr pred_real
    \<and> net_value env s netD (detach fake) = Inr pred_fake
    \<and> data loss_D =
        (criterionGAN env (data pred_real) True + criterionGAN env (data pred_fake) False) / 2
    \<and> grad_fn pred_fake \<subseteq> {netD}
    \<and> (\<forall>n. n \<noteq> netD \<longrightarrow> n \<notin> grad_fn real_t \<longrightarrow> grad s' n = grad s n)
    \<and> weights s' = weights s"
proof -
  from assms obtain pr pf where pr: "net_value env s netD real_t = Inr pr"
    and pf: "net_value env s netD (detach fake) = Inr pf"
    and l: "loss_D = mul (grad_enabled s)
                 (add (grad_enabled s) (gan_loss env (grad_enabled s) pr True)
                    (gan_loss env (grad_enabled s) pf False)) 0.5"
    and b: "backward env loss_D
             (s\<lparr>trace := trace s @ [Call netD (data real_t) (grad_enabled s),
                                    Call netD (data fake) (grad_enabled s)]\<rparr>) = Inr s'"
    by (auto simp add: backward_D_basic_Inr)
  from net_value_grad_fn [OF pr] have hr: "grad_fn pr \<subseteq> grad_fn real_t \<union> {netD}" .
  from net_value_grad_fn [OF pf] have hf: "grad_fn pf \<subseteq> {netD}"
    by simp
  from l hr hf have hl: "grad_fn loss_D \<subseteq> grad_fn real_t \<union> {netD}"
    by (auto simp add: grad_fn_result)
  from l have v: "data loss_D =
      (criterionGAN env (data pr) True + criterionGAN env (data pf) False) / 2"
    by simp
  from b hl have g: "\<forall>n. n \<noteq> netD \<longrightarrow> n \<notin> grad_fn real_t \<longrightarrow> grad s' n = grad s n"
    by (auto simp add: backward_Inr)
  from b have w: "weights s' = weights s"
    by (auto simp add: backward_Inr)
  from pr pf v hf g w show ?thesis
    by blast
qed

lemma backward_D_A_Inr:
  "backward_D_A env s = Inr s' \<longleftrightarrow>
     (\<exists>f r l s2. fake_B s = Some f \<and> real_B s = Some r
        \<and> backward_D_basic env D_A r (fst (pool_query env (fake_B_pool s) f))
             (s\<lparr>fake_B_pool := snd (pool_query env (fake_B_pool s) f)\<rparr>) = Inr (l, s2)
        \<and> s' = s2\<lparr>loss_D_A := Some l\<rparr>)"
  apply (simp add: backward_D_A_def and_then_attr and_then_backward_D_basic Let_def split_def)
  apply (intro iffI; clarsimp)
  done

lemma backward_D_B_Inr:
  "backward_D_B env s = Inr s' \<longleftrightarrow>
     (\<exists>f r l s2. fake_A s = Some f \<and> real_A s = Some r
        \<and> backward_D_basic env D_B r (fst (pool_query env (fake_A_pool s) f))
             (s\<lparr>fake_A_pool := snd (pool_query env (fake_A_pool s) f)\<rparr>) = Inr (l, s2)
        \<and> s' = s2\<lparr>loss_D_B := Some l\<rparr>)"
  apply (simp add: backward_D_B_def and_then_attr and_then_backward_D_basic Let_def split_def)
  apply (intro iffI; clarsimp)
  done

text \<open>
  C3. The loss \<open>backward_D_basic\<close> returns is the arithmetic mean of the criterion on the
  discriminator's prediction for the real image against True and on its prediction for
  the fake image against False. The fake goes through \<open>detach\<close>: the prediction on it has
  no history but the discriminator itself, and \<open>loss_D.backward()\<close> leaves the gradient
  of every network untouched that is neither the discriminator nor in the history of the
  real image, whatever history the fake had; no parameter changes. \<open>backward_D_A\<close> and
  \<open>backward_D_B\<close> store this loss for \<open>netD_A\<close> on \<open>real_B\<close> and the pooled \<open>fake_B\<close>, and
  for \<open>netD_B\<close> on \<open>real_A\<close> and the pooled \<open>fake_A\<close>.
\<close>

theorem discriminator_loss:
  "(backward_D_basic env netD real_t fake s = Inr (loss_D, s') \<longrightarrow>
      (\<exists>pred_real pred_fake.
          net_value env s netD real_t = Inr pred_real
        \<and> net_value env s netD (detach fake) = Inr pred_fake
        \<and> data loss_D =
            (criterionGAN env (data pred_real) True + criterionGAN env (data pred_fake) False) / 2
        \<and> grad_fn pred_fake \<subseteq> {netD}
        \<and> (\<forall>n. n \<noteq> netD \<longrightarrow> n \<notin> grad_fn real_t \<longrightarrow> grad s' n = grad s n)
        \<and> weights s' = weights s))
   \<and> (backward_D_A env t = Inr t' \<longrightarrow>
        (\<exists>f r l t2. fake_B t = Some f \<and> real_B t = Some r
           \<and> backward_D_basic env D_A r (fst (pool_query env (fake_B_pool t) f))
                (t\<lparr>fake_B_pool := snd (pool_query env (fake_B_pool t) f)\<rparr>) = Inr (l, t2)
           \<and> t' = t2\<lparr>loss_D_A := Some l\<rparr>))
   \<and> (backward_D_B env u = Inr u' \<longrightarrow>
        (\<exists>f r l u2. fake_A u = Some f \<and> real_A u = Some r
           \<and> backward_D_basic env D_B r (fst (pool_query env (fake_A_pool u) f))
                (u\<lparr>fake_A_pool := snd (pool_query env (fake_A_pool u) f)\<rparr>) = Inr (l, u2)
           \<and> u' = u2\<lparr>loss_D_B := Some l\<rparr>))"
  using backward_D_basic_props [of env netD real_t fake s loss_D s']
  by (simp add: backward_D_A_Inr backward_D_B_Inr)

lemma backward_D_basic_gan1:
  "\<exists>l s'. backward_D_basic env0 D_A (leaf [[[[2]]]]) \<lparr>data = [[[[2]]]], grad_fn = {G_A}\<rparr> gan1
             = Inr (l, s')
      \<and> data l = 5 / 2 \<and> grad s' D_A = Some [5 / 2]"
  by (simp add: eval_defs backward_D_basic_def detach_def)

lemma backward_D_A_gan1:
  "\<exists>t'. backward_D_A env0 gan1 = Inr t' \<and> map_option data (loss_D_A t') = Some (5 / 2)"
  by (simp add: eval_defs backward_D_A_def backward_D_basic_def detach_def)

lemma backward_D_B_gan1:
  "\<exists>u'. backward_D_B env0 gan1 = Inr u' \<and> map_option data (loss_D_B u') = Some (9 / 8)"
  by (simp add: eval_defs backward_D_B_def backward_D_basic_def detach_def)

theorem discriminator_loss_witness:
  "(\<exists>l s'. backward_D_basic env0 D_A (leaf [[[[2]]]]) \<lparr>data = [[[[2]]]], grad_fn = {G_A}\<rparr> gan1
              = Inr (l, s')
       \<and> data l = 5 / 2 \<and> grad s' D_A = Some [5 / 2] \<and> grad s' G_A = grad gan1 G_A)
   \<and> (\<exists>t'. backward_D_A env0 gan1 = Inr t' \<and> map_option data (loss_D_A t') = Some (5 / 2)
         \<and> (\<exists>f r. fake_B gan1 = Some f \<and> real_B gan1 = Some r))
   \<and> (\<exists>u'. backward_D_B env0 gan1 = Inr u' \<and> map_option data (loss_D_B u') = Some (9 / 8)
         \<and> (\<exists>f r. fake_A gan1 = Some f \<and> real_A gan1 = Some r))"
proof -
  from backward_D_basic_gan1 obtain l s'
    where b: "backward_D_basic env0 D_A (leaf [[[[2]]]]) \<lparr>data = [[[[2]]]], grad_fn = {G_A}\<rparr> gan1
                = Inr (l, s')"
      and v: "data l = 5 / 2" "grad s' D_A = Some [5 / 2]"
    by blast
  from backward_D_A_gan1 obtain t' where t: "backward_D_A env0 gan1 = Inr t'"
    and tv: "map_option data (loss_D_A t') = Some (5 / 2)"
    by blast
  from backward_D_B_gan1 obtain u' where u: "backward_D_B env0 gan1 = Inr u'"
    and uv: "map_option data (loss_D_B u') = Some (9 / 8)"
    by blast
  note th = discriminator_loss [of env0 D_A "leaf [[[[2]]]]" "\<lparr>data = [[[[2]]]], grad_fn = {G_A}\<rparr>"
      gan1 l s' gan1 t' gan1 u']
  from th b have "\<forall>n. n \<noteq> D_A \<longrightarrow> n \<notin> grad_fn (leaf [[[[2::real]]]]) \<longrightarrow> grad s' n = grad gan1 n"
    by blast
  then have g: "grad s' G_A = grad gan1 G_A"
    by (simp add: leaf_def)
  from th t have ft: "\<exists>f r. fake_B gan1 = Some f \<and> real_B gan1 = Some r"
    by blast
  from th u have fu: "\<exists>f r. fake_A gan1 = Some f \<and> real_A gan1 = Some r"
    by blast
  from b v g t tv ft u uv fu show ?thesis
    by blast
qed

subsection \<open>The forward pass\<close>

text \<open>
  C1. \<open>forward\<close> succeeds exactly when the four inputs are set and the four
  concatenations and the four generator calls succeed. It then has called, in this order,
  \<open>G_A\<close> on \<open>real_A\<close> concatenated with \<open>aux_A\<close> along the channel dimension (giving
  \<open>fake_B\<close>), \<open>G_B\<close> on \<open>fake_B\<close> with \<open>aux_A\<close> (giving \<open>rec_A\<close>), \<open>G_B\<close> on \<open>real_B\<close>
  with \<open>aux_B\<close> (giving \<open>fake_A\<close>) and \<open>G_A\<close> on \<open>fake_A\<close> with \<open>aux_B\<close> (giving
  \<open>rec_B\<close>); the model differs from the one before in these four attributes and in the
  log of the four calls only.
\<close>

theorem forward_computes:
  "forward env s = Inr s' \<longleftrightarrow>
     (\<exists>a xa b xb i1 fb i2 ra i3 fa i4 rb.
        real_A s = Some a \<and> aux_A s = Some xa \<and> real_B s = Some b \<and> aux_B s = Some xb
        \<and> cat1 (grad_enabled s) a xa = Inr i1 \<and> net_value env s G_A i1 = Inr fb
        \<and> cat1 (grad_enabled s) fb xa = Inr i2 \<and> net_value env s G_B i2 = Inr ra
        \<and> cat1 (grad_enabled s) b xb = Inr i3 \<and> net_value env s G_B i3 = Inr fa
        \<and> cat1 (grad_enabled s) fa xb = Inr i4 \<and> net_value env s G_A i4 = Inr rb
        \<and> s' = s\<lparr>fake_B := Some fb, rec_A := Some ra, fake_A := Some fa, rec_B := Some rb,
                 trace := trace s @ [Call G_A (data i1) (grad_enabled s),
                                     Call G_B (data i2) (grad_enabled s),
                                     Call G_B (data i3) (grad_enabled s),
                                     Call G_A (data i4) (grad_enabled s)]\<rparr>)"
  unfolding forward_steps
  apply (rule iffI)
   apply clarsimp
  apply clarsimp
  done

theorem forward_computes_witness:
  "forward env0 gan0 = Inr gan1
   \<and> fake_B gan1 = Some \<lparr>data = [[[[2]]]], grad_fn = {G_A}\<rparr>
   \<and> trace gan1 = [Call G_A [[[[1]], [[0]]]] True, Call G_B [[[[2]], [[0]]]] True,
                    Call G_B [[[[2]], [[0]]]] True, Call G_A [[[[3 / 2]], [[0]]]] True]"
  using forward_gan0 forward_computes [of env0 gan0 gan1]
  by (simp add: gan1_def)

subsection \<open>Evaluation\<close>

lemma and_then_forward:
  "and_then (forward env s) f = Inr r \<longleftrightarrow> (\<exists>s1. forward env s = Inr s1 \<and> f s1 = Inr r)"
  by (rule and_then_Inr)

lemma and_then_cat0:
  "and_then (cat0 m a b) f = Inr r \<longleftrightarrow>
     (dims (data a))[0 := 0] = (dims (data b))[0 := 0]
     \<and> f (result m (data a @ data b) (grad_fn a \<union> grad_fn b)) = Inr r"
  by (simp add: cat0_def and_then_def)

lemma and_then_filled:
  "and_then (filled v n) f = Inr r \<longleftrightarrow> 0 \<le> n \<and> f (replicate (nat n) v) = Inr r"
  by (auto simp add: filled_def and_then_def)

lemma and_then_call_eval:
  "and_then (call_eval env x s) f = Inr r \<longleftrightarrow>
     has_eval_net s
     \<and> (\<exists>y. eval_fwd env (data x) = Inr y
           \<and> f (y, s\<lparr>trace := trace s @ [Call_eval (data x) (grad_enabled s)]\<rparr>) = Inr r)"
  by (auto simp add: call_eval_def and_then_Inr)

lemma and_then_collect:
  "and_then (collect ms) f = Inr r \<longleftrightarrow> (\<exists>xs. collect ms = Inr xs \<and> f xs = Inr r)"
  by (rule and_then_Inr)

lemma forward_frame:
  assumes "forward env s = Inr s1"
  shows "grad_enabled s1 = grad_enabled s" "has_eval_net s1 = has_eval_net s"
    "weights s1 = weights s" "requires_grad s1 = requires_grad s" "grad s1 = grad s"
  using assms by (auto simp add: forward_steps)

lemma model_evaluation_Inr:
  "model_evaluation env opt s = Inr ((preds, labels), s') \<longleftrightarrow>
     (\<exists>s1 a b logits. forward env s = Inr s1 \<and> fake_A s1 = Some a \<and> fake_B s1 = Some b
        \<and> (dims (data a))[0 := 0] = (dims (data b))[0 := 0]
        \<and> 0 \<le> batch_size opt
        \<and> labels = replicate (nat (batch_size opt)) 0 @ replicate (nat (batch_size opt)) 1
        \<and> has_eval_net s1
        \<and> eval_fwd env (data a @ data b) = Inr logits
        \<and> collect (map argmax logits) = Inr preds
        \<and> s' = s1\<lparr>trace := trace s1 @ [Call_eval (data a @ data b) False]\<rparr>)"
  apply (simp add: model_evaluation_def and_then_forward and_then_attr and_then_cat0
      and_then_filled and_then_call_eval and_then_collect Let_def)
  apply (intro iffI; clarsimp)
  done

lemma zip_replicate_const: "zip xs (replicate (length xs) c) = map (\<lambda>x. (x, c)) xs"
  by (induction xs) simp_all

lemma model_evaluation_gan0:
  "model_evaluation env0 opt0 gan0 =
     Inr (([1, 0], [0, 1]), gan1\<lparr>trace := trace gan1 @ [Call_eval [[[[3 / 2]]], [[[2]]]] False]\<rparr>)"
  apply (simp only: model_evaluation_def forward_gan0)
  apply (simp add: and_then_def attr_def gan1_def gan0_def
      cat0_def dims_def result_def filled_def opt0_def call_eval_def env0_def argmax_def
      Let_def leaf_def)
  done

text \<open>
  C6, as stated, says that \<open>model_evaluation\<close> runs the generator forward pass without
  gradient tracking. The \<open>with torch.no_grad()\<close> block encloses the call of the
  evaluation network only. Called in gradient mode, the four generator calls are made
  with tracking on and \<open>fake_A\<close> carries the history of \<open>G_B\<close>; only the call of the
  evaluation network is made with tracking off.
\<close>

theorem model_evaluation_counterexample:
  "after (model_evaluation env0 opt0 gan0) (\<lambda>(r, s). Some (trace s)) =
     Some [Call G_A [[[[1]], [[0]]]] True, Call G_B [[[[2]], [[0]]]] True,
           Call G_B [[[[2]], [[0]]]] True, Call G_A [[[[3 / 2]], [[0]]]] True,
           Call_eval [[[[3 / 2]]], [[[2]]]] False]
   \<and> after (model_evaluation env0 opt0 gan0) (\<lambda>(r, s). map_option grad_fn (fake_A s)) = Some {G_B}
   \<and> grad_enabled gan0"
  apply (simp only: model_evaluation_gan0)
  apply (simp add: after_def gan1_def gan0_def)
  done

text \<open>
  C6, amended. \<open>model_evaluation\<close> runs the generator forward pass in the gradient mode
  it is called in, concatenates \<open>fake_A\<close> and \<open>fake_B\<close> along the batch dimension, builds
  the labels as \<open>batch_size\<close> zeros followed by \<open>batch_size\<close> ones, calls the evaluation
  network on the concatenation with gradient tracking switched off, restores the
  gradient mode, and returns the index of the first maximum of each row of scores
  together with the labels. When both fake batches hold \<open>batch_size\<close> images, every
  \<open>fake_A\<close> image is paired with label 0 and every \<open>fake_B\<close> image with label 1.
\<close>

theorem model_evaluation_result:
  assumes "model_evaluation env opt s = Inr ((preds, labels), s')"
  shows "\<exists>s1 a b logits i1 i2 i3 i4.
      forward env s = Inr s1 \<and> fake_A s1 = Some a \<and> fake_B s1 = Some b
    \<and> 0 \<le> batch_size opt
    \<and> labels = replicate (nat (batch_size opt)) 0 @ replicate (nat (batch_size opt)) 1
    \<and> has_eval_net s
    \<and> eval_fwd env (data a @ data b) = Inr logits
    \<and> collect (map argmax logits) = Inr preds
    \<and> s' = s1\<lparr>trace := trace s1 @ [Call_eval (data a @ data b) False]\<rparr>
    \<and> trace s' = trace s @ [Call G_A i1 (grad_enabled s), Call G_B i2 (grad_enabled s),
                            Call G_B i3 (grad_enabled s), Call G_A i4 (grad_enabled s),
                            Call_eval (data a @ data b) False]
    \<and> grad_enabled s' = grad_enabled s
    \<and> (length (data a) = nat (batch_size opt) \<longrightarrow> length (data b) = nat (batch_size opt) \<longrightarrow>
         zip (data a @ data b) labels =
           map (\<lambda>x. (x, 0)) (data a) @ map (\<lambda>x. (x, 1)) (data b))"
proof -
  from assms obtain s1 a b logits where f: "forward env s = Inr s1"
    and ab: "fake_A s1 = Some a" "fake_B s1 = Some b"
    and n: "0 \<le> batch_size opt"
    and l: "labels = replicate (nat (batch_size opt)) 0 @ replicate (nat (batch_size opt)) 1"
    and e: "has_eval_net s1" "eval_fwd env (data a @ data b) = Inr logits"
      "collect (map argmax logits) = Inr preds"
    and s': "s' = s1\<lparr>trace := trace s1 @ [Call_eval (data a @ data b) False]\<rparr>"
    by (auto simp add: model_evaluation_Inr)
  from f obtain i1 i2 i3 i4 where tr: "trace s1 = trace s @
      [Call G_A i1 (grad_enabled s), Call G_B i2 (grad_enabled s),
       Call G_B i3 (grad_enabled s), Call G_A i4 (grad_enabled s)]"
    by (auto simp add: forward_steps)
  from e(1) forward_frame [OF f] have h: "has_eval_net s"
    by simp
  from s' forward_frame [OF f] have m: "grad_enabled s' = grad_enabled s"
    by simp
  from s' tr have tr': "trace s' = trace s @
      [Call G_A i1 (grad_enabled s), Call G_B i2 (grad_enabled s),
       Call G_B i3 (grad_enabled s), Call G_A i4 (grad_enabled s),
       Call_eval (data a @ data b) False]"
    by simp
  have z: "length (data a) = nat (batch_size opt) \<longrightarrow> length (data b) = nat (batch_size opt) \<longrightarrow>
      zip (data a @ data b) labels = map (\<lambda>x. (x, 0)) (data a) @ map (\<lambda>x. (x, 1)) (data b)"
  proof (intro impI)
    assume la: "length (data a) = nat (batch_size opt)"
      and lb: "length (data b) = nat (batch_size opt)"
    have "zip (data a @ data b) labels =
        zip (data a) (replicate (length (data a)) 0) @ zip (data b) (replicate (length (data b)) 1)"
      unfolding l la lb using la by (simp add: zip_append)
    then show "zip (data a @ data b) labels =
        map (\<lambda>x. (x, 0)) (data a) @ map (\<lambda>x. (x, 1)) (data b)"
      by (simp add: zip_replicate_const)
  qed
  from f ab n l h e(2,3) s' tr' m z show ?thesis
    by blast
qed

theorem model_evaluation_result_witness:
  "model_evaluation env0 opt0 gan0 =
     Inr (([1, 0], [0, 1]), gan1\<lparr>trace := trace gan1 @ [Call_eval [[[[3 / 2]]], [[[2]]]] False]\<rparr>)
   \<and> (\<exists>s1 a b logits. forward env0 gan0 = Inr s1 \<and> fake_A s1 = Some a \<and> fake_B s1 = Some b
         \<and> eval_fwd env0 (data a @ data b) = Inr logits
         \<and> collect (map argmax logits) = Inr [1, 0])"
  using model_evaluation_result [OF model_evaluation_gan0] model_evaluation_gan0
  by blast

subsection \<open>The training step\<close>

lemma zero_grad_simps [simp]:
  "weights (zero_grad ps s) = weights s"
  "requires_grad (zero_grad ps s) = requires_grad s"
  "grad_enabled (zero_grad ps s) = grad_enabled s"
  by (simp_all add: zero_grad_def)

lemma set_requires_grad_simps [simp]:
  "weights (set_requires_grad ns flag s) = weights s"
  "grad (set_requires_grad ns flag s) = grad s"
  "grad_enabled (set_requires_grad ns flag s) = grad_enabled s"
  "requires_grad (set_requires_grad ns flag s) n = (if n \<in> set ns then flag else requires_grad s n)"
  by (simp_all add: set_requires_grad_def)

lemma step_simps [simp]:
  "requires_grad (step env ps s) = requires_grad s"
  "grad (step env ps s) = grad s"
  "n \<notin> set ps \<Longrightarrow> weights (step env ps s) n = weights s n"
  by (simp_all add: step_def)

lemma backward_G_frame:
  assumes "backward_G env opt s = Inr s'"
  shows "weights s' = weights s" "requires_grad s' = requires_grad s"
proof -
  from assms obtain s1 s2 where 1: "identity_losses env opt s = Inr s1"
    and 2: "adversarial_cycle_losses env opt s1 = Inr s2" and 3: "total_loss env s2 = Inr s'"
    by (auto simp add: backward_G_parts)
  from 1 have a: "weights s1 = weights s \<and> requires_grad s1 = requires_grad s"
    by (auto simp add: identity_losses_Inr split: if_splits)
  from 2 have b: "weights s2 = weights s1 \<and> requires_grad s2 = requires_grad s1"
    by (auto simp add: adversarial_cycle_losses_Inr)
  from 3 have c: "weights s' = weights s2 \<and> requires_grad s' = requires_grad s2"
    by (auto simp add: total_loss_Inr backward_Inr)
  from a b c show "weights s' = weights s" "requires_grad s' = requires_grad s"
    by simp_all
qed

lemma backward_D_basic_frame:
  assumes "backward_D_basic env n x y s = Inr (l, s')"
  shows "weights s' = weights s" "requires_grad s' = requires_grad s"
  using assms by (auto simp add: backward_D_basic_Inr backward_Inr)

lemma backward_D_A_frame:
  assumes "backward_D_A env s = Inr s'"
  shows "weights s' = weights s" "requires_grad s' = requires_grad s"
  using assms by (auto simp add: backward_D_A_Inr dest: backward_D_basic_frame)

lemma backward_D_B_frame:
  assumes "backward_D_B env s = Inr s'"
  shows "weights s' = weights s" "requires_grad s' = requires_grad s"
  using assms by (auto simp add: backward_D_B_Inr dest: backward_D_basic_frame)

lemma generator_step_Inr:
  "generator_step env opt s = Inr s' \<longleftrightarrow>
     (\<exists>sb. backward_G env opt (zero_grad optimizer_G (set_requires_grad [D_A, D_B] False s)) = Inr sb
        \<and> s' = step env optimizer_G sb)"
  by (auto simp add: generator_step_def and_then_Inr Let_def)

lemma discriminator_step_Inr:
  "discriminator_step env s = Inr s' \<longleftrightarrow>
     (\<exists>sa sc. backward_D_A env (zero_grad optimizer_D (set_requires_grad [D_A, D_B] True s)) = Inr sa
        \<and> backward_D_B env sa = Inr sc
        \<and> s' = step env optimizer_D sc)"
  by (auto simp add: discriminator_step_def and_then_Inr Let_def)

lemma optimize_parameters_frames:
  assumes "optimize_parameters env opt s = Inr s'"
  shows "\<exists>s1 sg sb s2 sd sa sc.
      forward env s = Inr s1
    \<and> sg = zero_grad optimizer_G (set_requires_grad [D_A, D_B] False s1)
    \<and> \<not> requires_grad sg D_A \<and> \<not> requires_grad sg D_B
    \<and> backward_G env opt sg = Inr sb
    \<and> \<not> requires_grad sb D_A \<and> \<not> requires_grad sb D_B
    \<and> s2 = step env optimizer_G sb
    \<and> generator_step env opt s1 = Inr s2
    \<and> weights s2 D_A = weights s1 D_A \<and> weights s2 D_B = weights s1 D_B
    \<and> sd = zero_grad optimizer_D (set_requires_grad [D_A, D_B] True s2)
    \<and> requires_grad sd D_A \<and> requires_grad sd D_B
    \<and> backward_D_A env sd = Inr sa \<and> backward_D_B env sa = Inr sc
    \<and> requires_grad sc D_A \<and> requires_grad sc D_B
    \<and> s' = step env optimizer_D sc
    \<and> discriminator_step env s2 = Inr s'
    \<and> weights s' G_A = weights s2 G_A \<and> weights s' G_B = weights s2 G_B"
proof -
  from assms obtain s1 s2 where f: "forward env s = Inr s1"
    and g: "generator_step env opt s1 = Inr s2" and d: "discriminator_step env s2 = Inr s'"
    by (auto simp add: optimize_parameters_def and_then_Inr)
  define sg where "sg = zero_grad optimizer_G (set_requires_grad [D_A, D_B] False s1)"
  define sd where "sd = zero_grad optimizer_D (set_requires_grad [D_A, D_B] True s2)"
  from g obtain sb where bg: "backward_G env opt sg = Inr sb" and s2: "s2 = step env optimizer_G sb"
    by (auto simp add: generator_step_Inr sg_def)
  from d obtain sa sc where da: "backward_D_A env sd = Inr sa" and db: "backward_D_B env sa = Inr sc"
    and s': "s' = step env optimizer_D sc"
    by (auto simp add: discriminator_step_Inr sd_def)
  have fg: "\<not> requires_grad sg D_A" "\<not> requires_grad sg D_B" "weights sg = weights s1"
    by (simp_all add: sg_def)
  from backward_G_frame [OF bg] fg
  have fb: "\<not> requires_grad sb D_A" "\<not> requires_grad sb D_B" "weights sb = weights s1"
    by simp_all
  from s2 fb have w2: "weights s2 D_A = weights s1 D_A" "weights s2 D_B = weights s1 D_B"
    by (simp_all add: optimizer_G_def)
  have fd: "requires_grad sd D_A" "requires_grad sd D_B" "weights sd = weights s2"
    by (simp_all add: sd_def)
  from backward_D_A_frame [OF da] backward_D_B_frame [OF db] fd
  have fc: "requires_grad sc D_A" "requires_grad sc D_B" "weights sc = weights s2"
    by simp_all
  from s' fc have w': "weights s' G_A = weights s2 G_A" "weights s' G_B = weights s2 G_B"
    by (simp_all add: optimizer_D_def)
  from f sg_def fg(1,2) bg fb(1,2) s2 g w2 sd_def fd(1,2) da db fc(1,2) s' d w' show ?thesis
    by blast
qed

lemma hist_Some [simp]: "hist (Some x) = grad_fn x"
  by (simp add: hist_def)

lemma cat1_grad_fn: "cat1 m x y = Inr i \<Longrightarrow> grad_fn i \<subseteq> grad_fn x \<union> grad_fn y"
  by (auto simp add: cat1_def result_def split: if_splits)

lemma net_value_grad_fn_flag:
  "net_value env s n x = Inr y \<Longrightarrow> \<not> requires_grad s n \<Longrightarrow> grad_fn y \<subseteq> grad_fn x"
  by (auto simp add: net_value_def and_then_Inr result_def split: if_splits)

lemma grad_fn_bounds:
  "grad_fn (result m v h) \<subseteq> h"
  "grad_fn (add m x y) \<subseteq> grad_fn x \<union> grad_fn y"
  "grad_fn (mul m x c) \<subseteq> grad_fn x"
  "grad_fn (gan_loss env m p t) \<subseteq> grad_fn p"
  by (simp_all add: grad_fn_result)

lemma forward_hist:
  assumes "forward env s = Inr s1"
  shows "hist (fake_B s1) \<union> hist (rec_A s1) \<union> hist (fake_A s1) \<union> hist (rec_B s1)
           \<subseteq> inputs_hist s \<union> {G_A, G_B}"
    and "inputs_hist s1 = inputs_hist s"
proof -
  from assms obtain a xa i1 fb i2 ra b xb i3 fa i4 rb where
    in1: "real_A s = Some a" "aux_A s = Some xa" "real_B s = Some b" "aux_B s = Some xb"
    and c: "cat1 (grad_enabled s) a xa = Inr i1" "cat1 (grad_enabled s) fb xa = Inr i2"
      "cat1 (grad_enabled s) b xb = Inr i3" "cat1 (grad_enabled s) fa xb = Inr i4"
    and n: "net_value env s G_A i1 = Inr fb" "net_value env s G_B i2 = Inr ra"
      "net_value env s G_B i3 = Inr fa" "net_value env s G_A i4 = Inr rb"
    and s1: "s1 = s\<lparr>fake_B := Some fb, rec_A := Some ra, fake_A := Some fa, rec_B := Some rb,
                 trace := trace s @ [Call G_A (data i1) (grad_enabled s),
                                     Call G_B (data i2) (grad_enabled s),
                                     Call G_B (data i3) (grad_enabled s),
                                     Call G_A (data i4) (grad_enabled s)]\<rparr>"
    unfolding forward_steps by blast
  from s1 show "inputs_hist s1 = inputs_hist s"
    by (simp add: inputs_hist_def)
  have h: "inputs_hist s = grad_fn a \<union> grad_fn xa \<union> grad_fn b \<union> grad_fn xb"
    by (simp add: inputs_hist_def in1)
  from cat1_grad_fn [OF c(1)] net_value_grad_fn [OF n(1)] h
  have fb: "grad_fn fb \<subseteq> inputs_hist s \<union> {G_A, G_B}"
    by blast
  from cat1_grad_fn [OF c(2)] net_value_grad_fn [OF n(2)] fb h
  have ra: "grad_fn ra \<subseteq> inputs_hist s \<union> {G_A, G_B}"
    by blast
  from cat1_grad_fn [OF c(3)] net_value_grad_fn [OF n(3)] h
  have fa: "grad_fn fa \<subseteq> inputs_hist s \<union> {G_A, G_B}"
    by blast
  from cat1_grad_fn [OF c(4)] net_value_grad_fn [OF n(4)] fa h
  have rb: "grad_fn rb \<subseteq> inputs_hist s \<union> {G_A, G_B}"
    by blast
  from fb ra fa rb s1
  show "hist (fake_B s1) \<union> hist (rec_A s1) \<union> hist (fake_A s1) \<union> hist (rec_B s1)
           \<subseteq> inputs_hist s \<union> {G_A, G_B}"
    by simp
qed

lemma hist_bound_None [simp]: "hist None = {}"
  by (simp add: hist_def)

lemma identity_losses_hist:
  assumes "identity_losses env opt s = Inr s1"
  shows "hist (loss_idt_A s1) \<union> hist (loss_idt_B s1) \<subseteq> inputs_hist s \<union> {G_A, G_B}"
proof (cases "0 < lambda_identity opt")
  case True
  with assms obtain b xb i ia a xa j ib where
    in1: "real_B s = Some b" "aux_B s = Some xb" "real_A s = Some a" "aux_A s = Some xa"
    and c: "cat1 (grad_enabled s) b xb = Inr i" "cat1 (grad_enabled s) a xa = Inr j"
    and n: "net_value env s G_A i = Inr ia" "net_value env s G_B j = Inr ib"
    and la: "hist (loss_idt_A s1) = grad_fn (mul (grad_enabled s)
                    (mul (grad_enabled s)
                       (result (grad_enabled s) (mean_abs_diff (data ia) (data b))
                          (grad_fn ia \<union> grad_fn b))
                       (lambda_B opt))
                    (lambda_identity opt))"
    and lb: "hist (loss_idt_B s1) = grad_fn (mul (grad_enabled s)
                    (mul (grad_enabled s)
                       (result (grad_enabled s) (mean_abs_diff (data ib) (data a))
                          (grad_fn ib \<union> grad_fn a))
                       (lambda_A opt))
                    (lambda_identity opt))"
    by (auto simp add: identity_losses_Inr)
  have h: "inputs_hist s = grad_fn a \<union> grad_fn xa \<union> grad_fn b \<union> grad_fn xb"
    by (simp add: inputs_hist_def in1)
  from la have "hist (loss_idt_A s1) \<subseteq> grad_fn ia \<union> grad_fn b"
    by (simp add: grad_fn_result)
  with cat1_grad_fn [OF c(1)] net_value_grad_fn [OF n(1)] h
  have a: "hist (loss_idt_A s1) \<subseteq> inputs_hist s \<union> {G_A, G_B}"
    by blast
  from lb have "hist (loss_idt_B s1) \<subseteq> grad_fn ib \<union> grad_fn a"
    by (simp add: grad_fn_result)
  with cat1_grad_fn [OF c(2)] net_value_grad_fn [OF n(2)] h
  have b: "hist (loss_idt_B s1) \<subseteq> inputs_hist s \<union> {G_A, G_B}"
    by blast
  from a b show ?thesis
    by simp
next
  case False
  with assms show ?thesis
    by (simp add: identity_losses_Inr py_zero_def)
qed

lemma identity_losses_frame:
  assumes "identity_losses env opt s = Inr s1"
  shows "fake_A s1 = fake_A s" "fake_B s1 = fake_B s" "rec_A s1 = rec_A s" "rec_B s1 = rec_B s"
    "real_A s1 = real_A s" "real_B s1 = real_B s" "aux_A s1 = aux_A s" "aux_B s1 = aux_B s"
    "grad s1 = grad s"
  using assms by (auto simp add: identity_losses_Inr split: if_splits)

lemma adversarial_cycle_hist:
  assumes "adversarial_cycle_losses env opt s = Inr s2"
    and "\<not> requires_grad s D_A" and "\<not> requires_grad s D_B"
  shows "hist (loss_G_A s2) \<union> hist (loss_G_B s2) \<union> hist (loss_cycle_A s2) \<union> hist (loss_cycle_B s2)
      \<subseteq> hist (fake_B s) \<union> hist (fake_A s) \<union> hist (rec_A s) \<union> hist (rec_B s)
          \<union> hist (real_A s) \<union> hist (real_B s)"
proof -
  from assms(1) obtain fb pa fa pb ra a rb b where
    t: "fake_B s = Some fb" "fake_A s = Some fa" "rec_A s = Some ra" "real_A s = Some a"
      "rec_B s = Some rb" "real_B s = Some b"
    and n: "net_value env s D_A fb = Inr pa" "net_value env s D_B fa = Inr pb"
    and l: "hist (loss_G_A s2) = grad_fn (gan_loss env (grad_enabled s) pa True)"
      "hist (loss_G_B s2) = grad_fn (gan_loss env (grad_enabled s) pb True)"
      "hist (loss_cycle_A s2) = grad_fn (mul (grad_enabled s)
                  (result (grad_enabled s) (mean_abs_diff (data ra) (data a))
                     (grad_fn ra \<union> grad_fn a))
                  (lambda_A opt))"
      "hist (loss_cycle_B s2) = grad_fn (mul (grad_enabled s)
                  (result (grad_enabled s) (mean_abs_diff (data rb) (data b))
                     (grad_fn rb \<union> grad_fn b))
                  (lambda_B opt))"
    by (auto simp add: adversarial_cycle_losses_Inr)
  from l(1) net_value_grad_fn_flag [OF n(1) assms(2)] have 1: "hist (loss_G_A s2) \<subseteq> grad_fn fb"
    by (auto simp add: grad_fn_result split: if_splits)
  from l(2) net_value_grad_fn_flag [OF n(2) assms(3)] have 2: "hist (loss_G_B s2) \<subseteq> grad_fn fa"
    by (auto simp add: grad_fn_result split: if_splits)
  from l(3) have 3: "hist (loss_cycle_A s2) \<subseteq> grad_fn ra \<union> grad_fn a"
    by (simp add: grad_fn_result)
  from l(4) have 4: "hist (loss_cycle_B s2) \<subseteq> grad_fn rb \<union> grad_fn b"
    by (simp add: grad_fn_result)
  from 1 2 3 4 show ?thesis
    unfolding t hist_Some by blast
qed

lemma adversarial_cycle_frame:
  assumes "adversarial_cycle_losses env opt s = Inr s2"
  shows "loss_idt_A s2 = loss_idt_A s" "loss_idt_B s2 = loss_idt_B s" "grad s2 = grad s"
    "real_A s2 = real_A s" "real_B s2 = real_B s" "aux_A s2 = aux_A s" "aux_B s2 = aux_B s"
  using assms by (auto simp add: adversarial_cycle_losses_Inr)

lemma total_loss_grad:
  assumes "total_loss env s = Inr s'"
    and "n \<notin> hist (loss_G_A s) \<union> hist (loss_G_B s) \<union> hist (loss_cycle_A s)
             \<union> hist (loss_cycle_B s) \<union> hist (loss_idt_A s) \<union> hist (loss_idt_B s)"
  shows "grad s' n = grad s n"
proof -
  from assms(1) obtain ga gb ca cb ia ib where
    l: "loss_G_A s = Some ga" "loss_G_B s = Some gb" "loss_cycle_A s = Some ca"
      "loss_cycle_B s = Some cb" "loss_idt_A s = Some ia" "loss_idt_B s = Some ib"
    and b: "backward env
             (add (grad_enabled s) (add (grad_enabled s) (add (grad_enabled s)
                (add (grad_enabled s) (add (grad_enabled s) ga gb) ca) cb) ia) ib)
             (s\<lparr>loss_G := Some
                (add (grad_enabled s) (add (grad_enabled s) (add (grad_enabled s)
                   (add (grad_enabled s) (add (grad_enabled s) ga gb) ca) cb) ia) ib)\<rparr>) = Inr s'"
    by (auto simp add: total_loss_Inr)
  from assms(2) have "n \<notin> grad_fn (add (grad_enabled s) (add (grad_enabled s) (add (grad_enabled s)
                (add (grad_enabled s) (add (grad_enabled s) ga gb) ca) cb) ia) ib)"
    by (simp add: l grad_fn_result)
  with b show ?thesis
    by (auto simp add: backward_Inr)
qed

lemma total_loss_frame:
  assumes "total_loss env s = Inr s'"
  shows "real_A s' = real_A s" "real_B s' = real_B s" "aux_A s' = aux_A s" "aux_B s' = aux_B s"
  using assms by (auto simp add: total_loss_Inr backward_Inr)

lemma backward_G_grad:
  assumes "backward_G env opt s = Inr s'"
    and "\<not> requires_grad s D_A" and "\<not> requires_grad s D_B"
    and "n \<notin> inputs_hist s \<union> hist (fake_B s) \<union> hist (fake_A s) \<union> hist (rec_A s)
            \<union> hist (rec_B s) \<union> {G_A, G_B}"
  shows "grad s' n = grad s n"
proof -
  from assms(1) obtain s1 s2 where 1: "identity_losses env opt s = Inr s1"
    and 2: "adversarial_cycle_losses env opt s1 = Inr s2" and 3: "total_loss env s2 = Inr s'"
    by (auto simp add: backward_G_parts)
  from 1 have r1: "requires_grad s1 = requires_grad s"
    by (auto simp add: identity_losses_Inr split: if_splits)
  note f1 = identity_losses_frame [OF 1]
  note f2 = adversarial_cycle_frame [OF 2]
  from adversarial_cycle_hist [OF 2] assms(2,3) r1 f1
  have h2: "hist (loss_G_A s2) \<union> hist (loss_G_B s2) \<union> hist (loss_cycle_A s2) \<union> hist (loss_cycle_B s2)
      \<subseteq> hist (fake_B s) \<union> hist (fake_A s) \<union> hist (rec_A s) \<union> hist (rec_B s)
          \<union> hist (real_A s) \<union> hist (real_B s)"
    by simp
  from identity_losses_hist [OF 1] f2
  have h1: "hist (loss_idt_A s2) \<union> hist (loss_idt_B s2) \<subseteq> inputs_hist s \<union> {G_A, G_B}"
    by simp
  from h1 h2 assms(4)
  have "n \<notin> hist (loss_G_A s2) \<union> hist (loss_G_B s2) \<union> hist (loss_cycle_A s2)
             \<union> hist (loss_cycle_B s2) \<union> hist (loss_idt_A s2) \<union> hist (loss_idt_B s2)"
    unfolding inputs_hist_def by blast
  from total_loss_grad [OF 3 this] f2(3) f1(9) show ?thesis
    by simp
qed

lemma backward_G_inputs:
  assumes "backward_G env opt s = Inr s'"
  shows "real_A s' = real_A s" "real_B s' = real_B s" "aux_A s' = aux_A s" "aux_B s' = aux_B s"
proof -
  from assms obtain s1 s2 where 1: "identity_losses env opt s = Inr s1"
    and 2: "adversarial_cycle_losses env opt s1 = Inr s2" and 3: "total_loss env s2 = Inr s'"
    by (auto simp add: backward_G_parts)
  from identity_losses_frame [OF 1] adversarial_cycle_frame [OF 2] total_loss_frame [OF 3]
  show "real_A s' = real_A s" "real_B s' = real_B s" "aux_A s' = aux_A s" "aux_B s' = aux_B s"
    by simp_all
qed

lemma zero_grad_fields [simp]:
  "grad (zero_grad ps s) n = (if n \<in> set ps then None else grad s n)"
  "real_A (zero_grad ps s) = real_A s" "real_B (zero_grad ps s) = real_B s"
  "aux_A (zero_grad ps s) = aux_A s" "aux_B (zero_grad ps s) = aux_B s"
  "fake_A (zero_grad ps s) = fake_A s" "fake_B (zero_grad ps s) = fake_B s"
  "rec_A (zero_grad ps s) = rec_A s" "rec_B (zero_grad ps s) = rec_B s"
  by (simp_all add: zero_grad_def)

lemma set_requires_grad_fields [simp]:
  "real_A (set_requires_grad ns flag s) = real_A s" "real_B (set_requires_grad ns flag s) = real_B s"
  "aux_A (set_requires_grad ns flag s) = aux_A s" "aux_B (set_requires_grad ns flag s) = aux_B s"
  "fake_A (set_requires_grad ns flag s) = fake_A s" "fake_B (set_requires_grad ns flag s) = fake_B s"
  "rec_A (set_requires_grad ns flag s) = rec_A s" "rec_B (set_requires_grad ns flag s) = rec_B s"
  by (simp_all add: set_requires_grad_def)

lemma step_fields [simp]:
  "real_A (step env ps s) = real_A s" "real_B (step env ps s) = real_B s"
  "aux_A (step env ps s) = aux_A s" "aux_B (step env ps s) = aux_B s"
  by (simp_all add: step_def)

lemma forward_inputs:
  assumes "forward env s = Inr s1"
  shows "real_A s1 = real_A s" "real_B s1 = real_B s" "aux_A s1 = aux_A s" "aux_B s1 = aux_B s"
  using assms by (auto simp add: forward_steps)

lemma backward_D_A_grad:
  assumes "backward_D_A env s = Inr s'"
  shows "n \<noteq> D_A \<Longrightarrow> n \<notin> hist (real_B s) \<Longrightarrow> grad s' n = grad s n"
    and "real_A s' = real_A s" and "real_B s' = real_B s"
proof -
  from assms obtain f r l s2 where r: "real_B s = Some r"
    and b: "backward_D_basic env D_A r (fst (pool_query env (fake_B_pool s) f))
             (s\<lparr>fake_B_pool := snd (pool_query env (fake_B_pool s) f)\<rparr>) = Inr (l, s2)"
    and s': "s' = s2\<lparr>loss_D_A := Some l\<rparr>"
    by (auto simp add: backward_D_A_Inr)
  from backward_D_basic_props [OF b] s' r
  show "n \<noteq> D_A \<Longrightarrow> n \<notin> hist (real_B s) \<Longrightarrow> grad s' n = grad s n"
    by auto
  from b s' show "real_A s' = real_A s" "real_B s' = real_B s"
    by (auto simp add: backward_D_basic_Inr backward_Inr)
qed

lemma backward_D_B_grad:
  assumes "backward_D_B env s = Inr s'"
  shows "n \<noteq> D_B \<Longrightarrow> n \<notin> hist (real_A s) \<Longrightarrow> grad s' n = grad s n"
    and "real_A s' = real_A s" and "real_B s' = real_B s"
proof -
  from assms obtain f r l s2 where r: "real_A s = Some r"
    and b: "backward_D_basic env D_B r (fst (pool_query env (fake_A_pool s) f))
             (s\<lparr>fake_A_pool := snd (pool_query env (fake_A_pool s) f)\<rparr>) = Inr (l, s2)"
    and s': "s' = s2\<lparr>loss_D_B := Some l\<rparr>"
    by (auto simp add: backward_D_B_Inr)
  from backward_D_basic_props [OF b] s' r
  show "n \<noteq> D_B \<Longrightarrow> n \<notin> hist (real_A s) \<Longrightarrow> grad s' n = grad s n"
    by auto
  from b s' show "real_A s' = real_A s" "real_B s' = real_B s"
    by (auto simp add: backward_D_basic_Inr backward_Inr)
qed

lemma generator_step_grad:
  assumes f: "forward env s = Inr s1" and g: "generator_step env opt s1 = Inr s2"
    and n: "n \<in> {D_A, D_B}" "n \<notin> inputs_hist s"
  shows "grad s2 n = grad s1 n"
proof -
  define sg where "sg = zero_grad optimizer_G (set_requires_grad [D_A, D_B] False s1)"
  from g obtain sb where bg: "backward_G env opt sg = Inr sb" and s2: "s2 = step env optimizer_G sb"
    by (auto simp add: generator_step_Inr sg_def)
  have flags: "\<not> requires_grad sg D_A" "\<not> requires_grad sg D_B"
    by (simp_all add: sg_def)
  have same: "inputs_hist sg = inputs_hist s1" "fake_A sg = fake_A s1" "fake_B sg = fake_B s1"
    "rec_A sg = rec_A s1" "rec_B sg = rec_B s1"
    by (simp_all add: sg_def inputs_hist_def)
  from forward_hist [OF f] same n
  have "n \<notin> inputs_hist sg \<union> hist (fake_B sg) \<union> hist (fake_A sg) \<union> hist (rec_A sg)
            \<union> hist (rec_B sg) \<union> {G_A, G_B}"
    by auto
  from backward_G_grad [OF bg flags this] have "grad sb n = grad sg n" .
  moreover from n(1) have "grad sg n = grad s1 n"
    by (auto simp add: sg_def optimizer_G_def)
  ultimately show ?thesis
    using s2 by simp
qed

lemma generator_step_inputs:
  assumes "generator_step env opt s1 = Inr s2"
  shows "real_A s2 = real_A s1" "real_B s2 = real_B s1"
proof -
  from assms obtain sb
    where bg: "backward_G env opt (zero_grad optimizer_G (set_requires_grad [D_A, D_B] False s1)) = Inr sb"
      and s2: "s2 = step env optimizer_G sb"
    by (auto simp add: generator_step_Inr)
  from backward_G_inputs [OF bg] s2 show "real_A s2 = real_A s1" "real_B s2 = real_B s1"
    by simp_all
qed

lemma discriminator_step_grad:
  assumes d: "discriminator_step env s2 = Inr s'"
    and n: "n \<in> {G_A, G_B}" "n \<notin> hist (real_A s2) \<union> hist (real_B s2)"
  shows "grad s' n = grad s2 n"
proof -
  define sd where "sd = zero_grad optimizer_D (set_requires_grad [D_A, D_B] True s2)"
  from d obtain sa sc where da: "backward_D_A env sd = Inr sa" and db: "backward_D_B env sa = Inr sc"
    and s': "s' = step env optimizer_D sc"
    by (auto simp add: discriminator_step_Inr sd_def)
  have sd: "real_A sd = real_A s2" "real_B sd = real_B s2"
    by (simp_all add: sd_def)
  from n(1) have g0: "grad sd n = grad s2 n"
    by (auto simp add: sd_def optimizer_D_def)
  from n sd backward_D_A_grad(1) [OF da, of n] have g1: "grad sa n = grad sd n"
    by auto
  from n sd backward_D_A_grad(2) [OF da] backward_D_B_grad(1) [OF db, of n]
  have g2: "grad sc n = grad sa n"
    by auto
  from g0 g1 g2 s' show ?thesis
    by simp
qed

lemma more_fields [simp]:
  "fake_A (step env ps s) = fake_A s" "fake_B (step env ps s) = fake_B s"
  "grad_enabled (step env ps s) = grad_enabled s"
  by (simp_all add: step_def)

lemma backward_G_fakes:
  assumes "backward_G env opt s = Inr s'"
  shows "fake_A s' = fake_A s" "fake_B s' = fake_B s" "grad_enabled s' = grad_enabled s"
proof -
  from assms obtain s1 s2 where 1: "identity_losses env opt s = Inr s1"
    and 2: "adversarial_cycle_losses env opt s1 = Inr s2" and 3: "total_loss env s2 = Inr s'"
    by (auto simp add: backward_G_parts)
  from 1 have a: "fake_A s1 = fake_A s \<and> fake_B s1 = fake_B s \<and> grad_enabled s1 = grad_enabled s"
    by (auto simp add: identity_losses_Inr split: if_splits)
  from 2 have b: "fake_A s2 = fake_A s1 \<and> fake_B s2 = fake_B s1 \<and> grad_enabled s2 = grad_enabled s1"
    by (auto simp add: adversarial_cycle_losses_Inr)
  from 3 have c: "fake_A s' = fake_A s2 \<and> fake_B s' = fake_B s2 \<and> grad_enabled s' = grad_enabled s2"
    by (auto simp add: total_loss_Inr backward_Inr)
  from a b c show "fake_A s' = fake_A s" "fake_B s' = fake_B s" "grad_enabled s' = grad_enabled s"
    by simp_all
qed

text \<open>When the discriminators' forward functions never raise, the discriminator part runs.\<close>

lemma backward_D_basic_succeeds:
  assumes total: "\<forall>w x. \<exists>y. net_fwd env netD w x = Inr y"
    and on: "grad_enabled s" "requires_grad s netD"
  shows "\<exists>l s'. backward_D_basic env netD r f s = Inr (l, s')"
proof -
  from total obtain y1 where y1: "net_fwd env netD (weights s netD) (data r) = Inr y1"
    by blast
  from total obtain y2 where y2: "net_fwd env netD (weights s netD) (data f) = Inr y2"
    by blast
  let ?pr = "result (grad_enabled s) y1 (grad_fn r \<union> (if requires_grad s netD then {netD} else {}))"
  let ?pf = "result (grad_enabled s) y2
      (grad_fn (detach f) \<union> (if requires_grad s netD then {netD} else {}))"
  let ?l = "mul (grad_enabled s)
                 (add (grad_enabled s) (gan_loss env (grad_enabled s) ?pr True)
                    (gan_loss env (grad_enabled s) ?pf False)) 0.5"
  from y1 have pr: "net_value env s netD r = Inr ?pr"
    by (simp add: net_value_def and_then_Inr_simp)
  from y2 have pf: "net_value env s netD (detach f) = Inr ?pf"
    by (simp add: net_value_def and_then_Inr_simp)
  from on have "grad_fn ?l \<noteq> {}"
    by (simp add: grad_fn_result)
  then have "\<exists>s'. backward env ?l
             (s\<lparr>trace := trace s @ [Call netD (data r) (grad_enabled s),
                                    Call netD (data f) (grad_enabled s)]\<rparr>) = Inr s'"
    by (simp add: backward_def)
  with pr pf show ?thesis
    unfolding backward_D_basic_Inr by blast
qed

lemma backward_D_A_succeeds:
  assumes "\<forall>w x. \<exists>y. net_fwd env D_A w x = Inr y"
    and "grad_enabled s" "requires_grad s D_A" "fake_B s = Some f" "real_B s = Some r"
  shows "\<exists>s'. backward_D_A env s = Inr s'"
proof -
  from assms(1-3)
  have "\<exists>l s2. backward_D_basic env D_A r (fst (pool_query env (fake_B_pool s) f))
             (s\<lparr>fake_B_pool := snd (pool_query env (fake_B_pool s) f)\<rparr>) = Inr (l, s2)"
    by (intro backward_D_basic_succeeds) simp_all
  with assms(4,5) show ?thesis
    unfolding backward_D_A_Inr by blast
qed

lemma backward_D_B_succeeds:
  assumes "\<forall>w x. \<exists>y. net_fwd env D_B w x = Inr y"
    and "grad_enabled s" "requires_grad s D_B" "fake_A s = Some f" "real_A s = Some r"
  shows "\<exists>s'. backward_D_B env s = Inr s'"
proof -
  from assms(1-3)
  have "\<exists>l s2. backward_D_basic env D_B r (fst (pool_query env (fake_A_pool s) f))
             (s\<lparr>fake_A_pool := snd (pool_query env (fake_A_pool s) f)\<rparr>) = Inr (l, s2)"
    by (intro backward_D_basic_succeeds) simp_all
  with assms(4,5) show ?thesis
    unfolding backward_D_B_Inr by blast
qed

lemma backward_D_A_keeps:
  assumes "backward_D_A env s = Inr s'"
  shows "fake_A s' = fake_A s" "grad_enabled s' = grad_enabled s"
  using assms by (auto simp add: backward_D_A_Inr backward_D_basic_Inr backward_Inr)

lemma discriminator_step_succeeds:
  assumes total: "\<forall>n w x. \<exists>y. net_fwd env n w x = Inr y"
    and on: "grad_enabled s"
    and t: "fake_B s = Some fb" "real_B s = Some rb" "fake_A s = Some fa" "real_A s = Some ra"
  shows "\<exists>s'. discriminator_step env s = Inr s'"
proof -
  define sd where "sd = zero_grad optimizer_D (set_requires_grad [D_A, D_B] True s)"
  from on t have "\<exists>sa. backward_D_A env sd = Inr sa"
    by (intro backward_D_A_succeeds [of env sd fb rb]) (simp_all add: total sd_def)
  then obtain sa where da: "backward_D_A env sd = Inr sa"
    by blast
  from backward_D_A_keeps [OF da] backward_D_A_frame [OF da] backward_D_A_grad(2) [OF da] on t
  have "grad_enabled sa" "requires_grad sa D_B" "fake_A sa = Some fa" "real_A sa = Some ra"
    by (simp_all add: sd_def)
  then have "\<exists>sc. backward_D_B env sa = Inr sc"
    by (intro backward_D_B_succeeds [of env sa fa ra]) (simp_all add: total)
  with da show ?thesis
    unfolding discriminator_step_Inr sd_def by blast
qed

lemma generator_step_gan1: "\<exists>s2. generator_step env0 opt0 gan1 = Inr s2"
  unfolding generator_step_Inr
  by (simp add: net_on_cat_def call_net_def net_value_def cat1_def dims_def
      result_def attr_Some and_then_Inr_simp batch_map_def
      sample_map_def Let_def identity_losses_def adversarial_cycle_losses_def total_loss_def
      backward_G_def L1Loss_def mean_abs_diff_def flatten_def mul_def add_def gan_loss_def
      backward_def opt0_def env0_fields gan1_fields zero_grad_def set_requires_grad_def)

lemma optimize_parameters_gan0: "\<exists>s'. optimize_parameters env0 opt0 gan0 = Inr s'"
proof -
  from generator_step_gan1 obtain s2 where g: "generator_step env0 opt0 gan1 = Inr s2"
    by blast
  then obtain sb
    where bg: "backward_G env0 opt0 (zero_grad optimizer_G (set_requires_grad [D_A, D_B] False gan1))
                 = Inr sb"
      and s2: "s2 = step env0 optimizer_G sb"
    by (auto simp add: generator_step_Inr)
  from backward_G_fakes [OF bg] backward_G_inputs [OF bg] s2
  have "grad_enabled s2" "fake_B s2 = fake_B gan1" "real_B s2 = real_B gan1"
    "fake_A s2 = fake_A gan1" "real_A s2 = real_A gan1"
    by (simp_all add: gan1_fields)
  then have "\<exists>s'. discriminator_step env0 s2 = Inr s'"
    by (intro discriminator_step_succeeds) (simp_all add: gan1_fields env0_fields)
  with forward_gan0 g show ?thesis
    by (auto simp add: optimize_parameters_def and_then_Inr_simp)
qed

text \<open>
  C4. A successful \<open>optimize_parameters\<close> is a forward pass, the generator part and the
  discriminator part. In the generator part \<open>requires_grad\<close> of both discriminators is
  switched off before \<open>backward_G\<close> and is still off when \<open>optimizer_G\<close> steps; the
  parameters of both discriminators are the same after the generator part as before it,
  and so is the accumulated gradient of a discriminator that is not in the history of
  the inputs. In the discriminator part \<open>requires_grad\<close> of both discriminators is
  switched on again before the two discriminator losses are computed; the parameters of
  both generators are the same after the discriminator part as before it, and so is the
  accumulated gradient of a generator that is not in the history of the real images.
\<close>

theorem optimize_parameters_substeps:
  assumes "optimize_parameters env opt s = Inr s'"
  shows "\<exists>s1 sg sb s2 sd sa sc.
      forward env s = Inr s1
    \<and> sg = zero_grad optimizer_G (set_requires_grad [D_A, D_B] False s1)
    \<and> \<not> requires_grad sg D_A \<and> \<not> requires_grad sg D_B
    \<and> backward_G env opt sg = Inr sb
    \<and> \<not> requires_grad sb D_A \<and> \<not> requires_grad sb D_B
    \<and> s2 = step env optimizer_G sb
    \<and> weights s2 D_A = weights s1 D_A \<and> weights s2 D_B = weights s1 D_B
    \<and> (\<forall>n. n \<in> {D_A, D_B} \<longrightarrow> n \<notin> inputs_hist s \<longrightarrow> grad s2 n = grad s1 n)
    \<and> sd = zero_grad optimizer_D (set_requires_grad [D_A, D_B] True s2)
    \<and> requires_grad sd D_A \<and> requires_grad sd D_B
    \<and> backward_D_A env sd = Inr sa \<and> backward_D_B env sa = Inr sc
    \<and> requires_grad sc D_A \<and> requires_grad sc D_B
    \<and> s' = step env optimizer_D sc
    \<and> weights s' G_A = weights s2 G_A \<and> weights s' G_B = weights s2 G_B
    \<and> (\<forall>n. n \<in> {G_A, G_B} \<longrightarrow> n \<notin> hist (real_A s) \<union> hist (real_B s) \<longrightarrow>
          grad s' n = grad s2 n)"
proof -
  from optimize_parameters_frames [OF assms] obtain s1 sg sb s2 sd sa sc where
    p: "forward env s = Inr s1"
      "sg = zero_grad optimizer_G (set_requires_grad [D_A, D_B] False s1)"
      "\<not> requires_grad sg D_A" "\<not> requires_grad sg D_B"
      "backward_G env opt sg = Inr sb"
      "\<not> requires_grad sb D_A" "\<not> requires_grad sb D_B"
      "s2 = step env optimizer_G sb"
      "generator_step env opt s1 = Inr s2"
      "weights s2 D_A = weights s1 D_A" "weights s2 D_B = weights s1 D_B"
      "sd = zero_grad optimizer_D (set_requires_grad [D_A, D_B] True s2)"
      "requires_grad sd D_A" "requires_grad sd D_B"
      "backward_D_A env sd = Inr sa" "backward_D_B env sa = Inr sc"
      "requires_grad sc D_A" "requires_grad sc D_B"
      "s' = step env optimizer_D sc"
      "discriminator_step env s2 = Inr s'"
      "weights s' G_A = weights s2 G_A" "weights s' G_B = weights s2 G_B"
    by blast
  from generator_step_grad [OF p(1) p(9)]
  have g: "\<forall>n. n \<in> {D_A, D_B} \<longrightarrow> n \<notin> inputs_hist s \<longrightarrow> grad s2 n = grad s1 n"
    by blast
  from forward_inputs [OF p(1)] generator_step_inputs [OF p(9)]
  have "real_A s2 = real_A s" "real_B s2 = real_B s"
    by simp_all
  with discriminator_step_grad [OF p(20)]
  have d: "\<forall>n. n \<in> {G_A, G_B} \<longrightarrow> n \<notin> hist (real_A s) \<union> hist (real_B s) \<longrightarrow>
          grad s' n = grad s2 n"
    by simp
  show ?thesis
    apply (rule exI [of _ s1], rule exI [of _ sg], rule exI [of _ sb], rule exI [of _ s2])
    apply (rule exI [of _ sd], rule exI [of _ sa], rule exI [of _ sc])
    apply (intro conjI)
                        apply (rule p g d)+
    done
qed

theorem optimize_parameters_substeps_witness:
  "\<exists>s'. optimize_parameters env0 opt0 gan0 = Inr s'
      \<and> (\<exists>s2. generator_step env0 opt0 gan1 = Inr s2
            \<and> weights s2 D_A = [0] \<and> weights s2 D_B = [0]
            \<and> grad s2 D_A = None \<and> grad s2 D_B = None
            \<and> weights s' G_A = weights s2 G_A \<and> weights s' G_B = weights s2 G_B
            \<and> grad s' G_A = grad s2 G_A \<and> grad s' G_B = grad s2 G_B)"
proof -
  from optimize_parameters_gan0 obtain s' where r: "optimize_parameters env0 opt0 gan0 = Inr s'"
    by blast
  from optimize_parameters_substeps [OF r] forward_gan0 obtain sb s2 where
    bg: "backward_G env0 opt0 (zero_grad optimizer_G (set_requires_grad [D_A, D_B] False gan1))
           = Inr sb"
    and s2: "s2 = step env0 optimizer_G sb"
    and w: "weights s2 D_A = weights gan1 D_A" "weights s2 D_B = weights gan1 D_B"
      "weights s' G_A = weights s2 G_A" "weights s' G_B = weights s2 G_B"
    and g: "\<forall>n. n \<in> {D_A, D_B} \<longrightarrow> n \<notin> inputs_hist gan0 \<longrightarrow> grad s2 n = grad gan1 n"
      "\<forall>n. n \<in> {G_A, G_B} \<longrightarrow> n \<notin> hist (real_A gan0) \<union> hist (real_B gan0) \<longrightarrow>
          grad s' n = grad s2 n"
    by auto
  from bg s2 have gs: "generator_step env0 opt0 gan1 = Inr s2"
    by (auto simp add: generator_step_Inr)
  have h: "inputs_hist gan0 = {}" "hist (real_A gan0) \<union> hist (real_B gan0) = {}"
    by (simp_all add: inputs_hist_def gan0_def leaf_def)
  from g h have "grad s2 D_A = None" "grad s2 D_B = None"
    "grad s' G_A = grad s2 G_A" "grad s' G_B = grad s2 G_B"
    by (simp_all add: gan1_fields)
  with r gs w show ?thesis
    by (auto simp add: gan1_fields)
qed

end
